theory Spec2Isabelle
  imports Main
begin

section \<open>Strings and errors\<close>

text \<open>
  Go strings are modelled as \<^typ>\<open>string\<close>. \<open>HasPrefix\<close> and \<open>Contains\<close> are
  \<open>strings.HasPrefix\<close> and \<open>strings.Contains\<close>.
\<close>

fun HasPrefix :: "string \<Rightarrow> string \<Rightarrow> bool" where
  "HasPrefix s [] = True"
| "HasPrefix [] (c # cs) = False"
| "HasPrefix (x # xs) (c # cs) = (x = c \<and> HasPrefix xs cs)"

fun Contains :: "string \<Rightarrow> string \<Rightarrow> bool" where
  "Contains [] substr = (substr = [])"
| "Contains (x # xs) substr = (HasPrefix (x # xs) substr \<or> Contains xs substr)"

text \<open>Decimal formatting of an integer, as the verb \<open>%d\<close> of \<open>fmt\<close> prints it.\<close>

function itoa_nat :: "nat \<Rightarrow> string" where
  "itoa_nat n =
     (if n < 10 then [''0123456789'' ! n]
      else itoa_nat (n div 10) @ [''0123456789'' ! (n mod 10)])"
  by pat_completeness auto
termination
  by (relation "measure (\<lambda>n. n)") auto

definition itoa :: "int \<Rightarrow> string" where
  "itoa i = (if i < 0 then CHR ''-'' # itoa_nat (nat (- i)) else itoa_nat (nat i))"

text \<open>
  The values of Go's \<open>error\<close> interface that reach the code under study:
  \<^item> \<open>ErrRecordNotFound\<close> is \<open>gorm.ErrRecordNotFound\<close>;
  \<open>ErrMismatchedHashAndPassword\<close> is bcrypt's;
  \<^item> \<open>DriverError msg\<close> is any other error of a collaborator (the database driver, the
    hashing or the signing library), known to the code only by its text \<open>msg\<close>;
  \<^item> \<open>RetryError operation n lastErr\<close> is the value built at the end of
    \<open>ExecuteWithRetry\<close> by
    \<open>fmt.Errorf("operation '%s' failed after %d attempts: %w", operation, n, lastErr)\<close>.
\<close>

datatype error =
    ErrRecordNotFound
  | ErrMismatchedHashAndPassword
  | DriverError string
  | RetryError string int "error option"

text \<open>The method \<open>Error()\<close>: the text of an error. \<open>%w\<close> of a nil error prints \<open>%!w(<nil>)\<close>.\<close>

fun Error :: "error \<Rightarrow> string" where
  "Error ErrRecordNotFound = ''record not found''"
| "Error ErrMismatchedHashAndPassword =
     ''crypto/bcrypt: hashedPassword is not the hash of the given password''"
| "Error (DriverError msg) = msg"
| "Error (RetryError operation n None) =
     ''operation '' @ [CHR 0x27] @ operation @ [CHR 0x27] @ '' failed after '' @ itoa n
       @ '' attempts: '' @ ''%!w(<nil>)''"
| "Error (RetryError operation n (Some e)) =
     ''operation '' @ [CHR 0x27] @ operation @ [CHR 0x27] @ '' failed after '' @ itoa n
       @ '' attempts: '' @ Error e"

text \<open>\<open>errors.Is(err, gorm.ErrRecordNotFound)\<close>: follows the chain that \<open>%w\<close> builds.\<close>

fun Is_ErrRecordNotFound :: "error \<Rightarrow> bool" where
  "Is_ErrRecordNotFound ErrRecordNotFound = True"
| "Is_ErrRecordNotFound (RetryError operation n (Some e)) = Is_ErrRecordNotFound e"
| "Is_ErrRecordNotFound e = False"

section \<open>Package retry\<close>

text \<open>A \<open>time.Duration\<close> is a count of nanoseconds in an \<open>int64\<close>.\<close>

type_synonym Duration = int

definition Millisecond :: Duration where
  "Millisecond = 1000000"

definition Second :: Duration where
  "Second = 1000 * Millisecond"

record RetryConfig =
  MaxAttempts :: int
  BaseDelay :: Duration
  MaxDelay :: Duration

definition DefaultRetryConfig :: RetryConfig where
  "DefaultRetryConfig =
     \<lparr>MaxAttempts = 3, BaseDelay = 100 * Millisecond, MaxDelay = 2 * Second\<rparr>"

text \<open>
  \<open>calculateDelay\<close> computes in \<open>float64\<close>:
  \<open>time.Duration(float64(baseDelay) * math.Pow(2, float64(attempt-1)))\<close>.
  Every value involved is an integer times a power of two, so the model is exact:
  \<^item> \<open>wrap64\<close> is the wrap-around of \<open>attempt-1\<close> in \<open>int64\<close>;
  \<^item> \<open>float64_of_int\<close> is the conversion \<open>float64(baseDelay)\<close>: exact below \<open>2^53\<close>
    in magnitude, rounded to 53 significant bits (nearest, ties to even) above;
  \<^item> \<open>math.Pow(2, y)\<close> is \<open>2^y\<close> for \<open>-1074 \<le> y \<le> 1023\<close>, \<open>+Inf\<close> above and \<open>0\<close>
    below; a product with \<open>+Inf\<close> is infinite or NaN;
  \<^item> the conversion back to \<open>int64\<close> truncates toward zero. Where the value does not
    fit in \<open>int64\<close> (or is NaN), Go leaves the result to the implementation: the model
    returns \<open>None\<close> there, and \<open>Some\<close> of the delay everywhere else.
\<close>

definition wrap64 :: "int \<Rightarrow> int" where
  "wrap64 i = (i + 2 ^ 63) mod 2 ^ 64 - 2 ^ 63"

function drop_bits :: "nat \<Rightarrow> nat" where
  "drop_bits m = (if m < 2 ^ 53 then 0 else Suc (drop_bits (m div 2)))"
  by pat_completeness auto
termination
  by (relation "measure (\<lambda>m. m)") auto

definition float64_of_int :: "int \<Rightarrow> int" where
  "float64_of_int i =
     (let m = nat \<bar>i\<bar>; e = drop_bits m; q = m div 2 ^ e; r = m mod 2 ^ e;
          q' = (if e = 0 then q
                else if 2 ^ (e - 1) < r \<or> (r = 2 ^ (e - 1) \<and> odd q) then q + 1 else q)
      in sgn i * int (q' * 2 ^ e))"

definition float_product_to_int64 :: "int \<Rightarrow> int \<Rightarrow> int option" where
  "float_product_to_int64 f y =
     (if 1024 \<le> y then None
      else let v = (if 0 \<le> y then f * 2 ^ nat y
                    else sgn f * (\<bar>f\<bar> div 2 ^ nat (- y)))
           in if - (2 ^ 63) \<le> v \<and> v < 2 ^ 63 then Some v else None)"

definition calculateDelay :: "int \<Rightarrow> Duration \<Rightarrow> Duration \<Rightarrow> Duration option" where
  "calculateDelay attempt baseDelay maxDelay =
     (case float_product_to_int64 (float64_of_int baseDelay) (wrap64 (attempt - 1)) of
        None \<Rightarrow> None
      | Some delay \<Rightarrow> if delay > maxDelay then Some maxDelay else Some delay)"

text \<open>
  \<open>ExecuteWithRetry\<close>. The operation \<open>fn\<close> is a closure over mutable state: it is
  modelled as a function from the state before the call to its error (\<open>None\<close> is
  \<open>nil\<close>) and the state after. The result is the returned error and the final state,
  with two ghost values: the number of times \<open>fn\<close> was invoked and the arguments of
  \<open>time.Sleep\<close> in order. Logging is left out. \<open>retry_loop\<close> is the \<open>for\<close> loop from
  the value \<open>attempt\<close> of its counter on; \<open>failed_after\<close> is the \<open>return\<close> after it.
\<close>

type_synonym 's RetryableFunc = "'s \<Rightarrow> error option \<times> 's"

definition failed_after :: "string \<Rightarrow> RetryConfig \<Rightarrow> error option \<Rightarrow> error" where
  "failed_after operation config lastErr = RetryError operation (MaxAttempts config) lastErr"

function retry_loop ::
  "string \<Rightarrow> 's RetryableFunc \<Rightarrow> RetryConfig \<Rightarrow> int \<Rightarrow> error option \<Rightarrow> 's \<Rightarrow> nat
     \<Rightarrow> Duration option list \<Rightarrow> error option \<times> 's \<times> nat \<times> Duration option list" where
  "retry_loop operation fn config attempt lastErr s n slept =
     (if attempt \<le> MaxAttempts config then
        (case fn s of
           (None, s') \<Rightarrow> (None, s', Suc n, slept)
         | (Some err, s') \<Rightarrow>
             if attempt = MaxAttempts config
             then (Some (failed_after operation config (Some err)), s', Suc n, slept)
             else retry_loop operation fn config (attempt + 1) (Some err) s' (Suc n)
                    (slept @ [calculateDelay attempt (BaseDelay config) (MaxDelay config)]))
      else (Some (failed_after operation config lastErr), s, n, slept))"
  by pat_completeness auto
termination
  by (relation "measure (\<lambda>(operation, fn, config, attempt, lastErr, s, n, slept).
        nat (MaxAttempts config + 1 - attempt))") auto

definition ExecuteWithRetry ::
  "string \<Rightarrow> 's RetryableFunc \<Rightarrow> RetryConfig \<Rightarrow> 's
     \<Rightarrow> error option \<times> 's \<times> nat \<times> Duration option list" where
  "ExecuteWithRetry operation fn config s = retry_loop operation fn config 1 None s 0 []"

text \<open>
  \<open>invocations fn k s\<close> is the state that \<open>k\<close> invocations of \<open>fn\<close> in a row leave, from
  the state \<open>s\<close>; \<open>fst (fn (invocations fn k s))\<close> is then the error of invocation \<open>k + 1\<close>.
\<close>

fun invocations :: "'s RetryableFunc \<Rightarrow> nat \<Rightarrow> 's \<Rightarrow> 's" where
  "invocations fn 0 s = s"
| "invocations fn (Suc k) s = invocations fn k (snd (fn s))"

section \<open>Package models\<close>

record User =
  ID :: nat
  Name :: string
  Email :: string
  Password :: string
  CreatedAt :: int
  UpdatedAt :: int

text \<open>The zero value of \<open>models.User\<close>, as \<open>var user models.User\<close> declares it.\<close>

definition zero_User :: User where
  "zero_User = \<lparr>ID = 0, Name = [], Email = [], Password = [], CreatedAt = 0, UpdatedAt = 0\<rparr>"

text \<open>
  The binding tags of the REST request structs, checked by \<open>ShouldBindJSON\<close>:
  \<open>required\<close> is non-empty; \<open>min=6\<close> on a string is at least six runes, counted by
  \<open>utf8.RuneCountInString\<close>; the format check \<open>email\<close> belongs to the validation
  library: it is the parameter \<open>is_email\<close>. \<open>RestUpdateUserRequest\<close> has no binding tag.

  A Go string is a sequence of bytes, here the elements of the \<^typ>\<open>string\<close>.
  \<open>RuneCountInString\<close> follows the library's loop: \<open>rune_size c s\<close> is the number of
  bytes the loop advances by at the byte \<open>c\<close> followed by the bytes \<open>s\<close>: one for an
  ASCII byte, for a byte that cannot start an encoding, and for an encoding that is cut
  short or has a byte outside the accepted range; the length of the encoding (two to
  four) otherwise. Every advance counts one rune.
\<close>

definition rune_size :: "char \<Rightarrow> string \<Rightarrow> nat" where
  "rune_size c s =
     (let b = (of_char c :: nat) in
      if b < 0x80 then 1
      else if b < 0xC2 \<or> 0xF4 < b then 1
      else let size = (if b < 0xE0 then 2 else if b < 0xF0 then 3 else 4);
               lo = (if b = 0xE0 then 0xA0 else if b = 0xF0 then 0x90 else 0x80);
               hi = (if b = 0xED then 0x9F else if b = 0xF4 then 0x8F else 0xBF)
           in if length s < size - 1 then 1
              else if (of_char (s ! 0) :: nat) < lo \<or> hi < (of_char (s ! 0) :: nat) then 1
              else if size = 2 then 2
              else if (of_char (s ! 1) :: nat) < 0x80 \<or> 0xBF < (of_char (s ! 1) :: nat) then 1
              else if size = 3 then 3
              else if (of_char (s ! 2) :: nat) < 0x80 \<or> 0xBF < (of_char (s ! 2) :: nat) then 1
              else 4)"

function RuneCountInString :: "string \<Rightarrow> nat" where
  "RuneCountInString [] = 0"
| "RuneCountInString (c # s) = Suc (RuneCountInString (drop (rune_size c s - 1) s))"
  by pat_completeness auto
termination
  by (relation "measure length") auto

definition bind_SignupRequest :: "(string \<Rightarrow> bool) \<Rightarrow> string \<Rightarrow> string \<Rightarrow> string \<Rightarrow> bool" where
  "bind_SignupRequest is_email name email password \<longleftrightarrow>
     name \<noteq> [] \<and> (email \<noteq> [] \<and> is_email email) \<and>
     (password \<noteq> [] \<and> 6 \<le> RuneCountInString password)"

definition bind_LoginRequest :: "(string \<Rightarrow> bool) \<Rightarrow> string \<Rightarrow> string \<Rightarrow> bool" where
  "bind_LoginRequest is_email email password \<longleftrightarrow>
     (email \<noteq> [] \<and> is_email email) \<and> password \<noteq> []"

section \<open>The persistence collaborator\<close>

text \<open>
  Modelled from the spec: the persistence collaborator (gorm over PostgreSQL) is a library
  outside the repository. Section 6 of the specification gives its contract:
  \<open>create(entity) -> ok|error\<close>, \<open>findOne(predicate) -> entity|NotFoundError\<close>,
  \<open>save(entity) -> ok|error\<close>, \<open>deleteByID(id) -> ok|error\<close>,
  \<open>findAll() -> sequence<entity>\<close>, with a distinguishable unique violation and a
  distinguishable not-found error; the tags of \<open>models.User\<close> make \<open>ID\<close> the primary key
  and put a unique index on \<open>Email\<close>.

  The state of the store is the table \<open>users\<close> in insertion order, the identifier sequence
  \<open>next_id\<close>, and the time \<open>clock\<close> it stamps rows with. \<open>faults\<close> is the environment:
  one entry for each coming physical call, \<open>Some msg\<close> when that call fails before it
  reaches the table (connectivity loss, timeout) with the driver's text \<open>msg\<close>; past the
  end of the list every call reaches the table. \<open>calls\<close> counts the physical calls made.
\<close>

record DB =
  users :: "User list"
  next_id :: nat
  clock :: int
  faults :: "string option list"
  calls :: nat

definition duplicate_key_msg :: string where
  "duplicate_key_msg =
     ''ERROR: duplicate key value violates unique constraint idx_users_email (SQLSTATE 23505)''"

definition db_begin :: "DB \<Rightarrow> string option \<times> DB" where
  "db_begin db =
     (case faults db of
        [] \<Rightarrow> (None, db\<lparr>calls := Suc (calls db)\<rparr>)
      | f # fs \<Rightarrow> (f, db\<lparr>faults := fs, calls := Suc (calls db)\<rparr>))"

text \<open>
  \<open>db.Create(user)\<close>: the store assigns the identifier and the timestamps. A failed insert
  consumes a value of the sequence, as PostgreSQL does. The second component of each
  result is the store after the call, the third the struct the call wrote to.
\<close>

definition db_Create :: "User \<Rightarrow> DB \<Rightarrow> error option \<times> DB \<times> User" where
  "db_Create user db =
     (case db_begin db of
        (Some msg, db') \<Rightarrow> (Some (DriverError msg), db', user)
      | (None, db') \<Rightarrow>
          if list_ex (\<lambda>r. Email r = Email user) (users db')
          then (Some (DriverError duplicate_key_msg), db'\<lparr>next_id := Suc (next_id db')\<rparr>, user)
          else let row = user\<lparr>ID := next_id db', CreatedAt := clock db', UpdatedAt := clock db'\<rparr>
               in (None, db'\<lparr>users := users db' @ [row], next_id := Suc (next_id db')\<rparr>, row))"

text \<open>\<open>db.First(&user, ...)\<close>: the first row that satisfies the condition, or \<open>ErrRecordNotFound\<close>.\<close>

definition db_First :: "(User \<Rightarrow> bool) \<Rightarrow> User \<Rightarrow> DB \<Rightarrow> error option \<times> DB \<times> User" where
  "db_First cond user db =
     (case db_begin db of
        (Some msg, db') \<Rightarrow> (Some (DriverError msg), db', user)
      | (None, db') \<Rightarrow>
          (case find cond (users db') of
             None \<Rightarrow> (Some ErrRecordNotFound, db', user)
           | Some row \<Rightarrow> (None, db', row)))"

text \<open>
  \<open>db.Save(user)\<close> writes every field of the struct to the row of its identifier and stamps
  \<open>UpdatedAt\<close>; it inserts the row when the table has none of that identifier. An email that
  another row holds violates the unique index.
\<close>

definition db_Save :: "User \<Rightarrow> DB \<Rightarrow> error option \<times> DB \<times> User" where
  "db_Save user db =
     (case db_begin db of
        (Some msg, db') \<Rightarrow> (Some (DriverError msg), db', user)
      | (None, db') \<Rightarrow>
          if list_ex (\<lambda>r. Email r = Email user \<and> ID r \<noteq> ID user) (users db')
          then (Some (DriverError duplicate_key_msg), db', user)
          else let row = user\<lparr>UpdatedAt := clock db'\<rparr>
               in if list_ex (\<lambda>r. ID r = ID user) (users db')
                  then (None, db'\<lparr>users := map (\<lambda>r. if ID r = ID user then row else r) (users db')\<rparr>, row)
                  else (None, db'\<lparr>users := users db' @ [row]\<rparr>, row))"

text \<open>\<open>db.Delete(&models.User{}, id)\<close>: no error when no row has the identifier.\<close>

definition db_Delete :: "nat \<Rightarrow> DB \<Rightarrow> error option \<times> DB" where
  "db_Delete uid db =
     (case db_begin db of
        (Some msg, db') \<Rightarrow> (Some (DriverError msg), db')
      | (None, db') \<Rightarrow> (None, db'\<lparr>users := filter (\<lambda>r. ID r \<noteq> uid) (users db')\<rparr>))"

text \<open>\<open>db.Find(&users)\<close>: all the rows.\<close>

definition db_Find :: "User list \<Rightarrow> DB \<Rightarrow> error option \<times> DB \<times> User list" where
  "db_Find dest db =
     (case db_begin db of
        (Some msg, db') \<Rightarrow> (Some (DriverError msg), db', dest)
      | (None, db') \<Rightarrow> (None, db', users db'))"

section \<open>Package database\<close>

text \<open>
  Each operation runs one closure under \<open>ExecuteWithRetry\<close> with the default
  configuration. A closure's state is the store together with the variable it captures.
  The closures test the error (\<open>duplicate key\<close>, \<open>UNIQUE constraint\<close>,
  \<open>gorm.ErrRecordNotFound\<close>) and then \<open>return err\<close> in both branches, as the source does.
\<close>

definition create_user_fn :: "(DB \<times> User) RetryableFunc" where
  "create_user_fn = (\<lambda>(db, user).
     (case db_Create user db of (err, db', user') \<Rightarrow>
        (case err of
           Some e \<Rightarrow>
             if Contains (Error e) ''duplicate key'' \<or> Contains (Error e) ''UNIQUE constraint''
             then (Some e, (db', user'))
             else (Some e, (db', user'))
         | None \<Rightarrow> (None, (db', user')))))"

definition CreateUserWithRetry :: "User \<Rightarrow> DB \<Rightarrow> error option \<times> DB \<times> User" where
  "CreateUserWithRetry user db =
     (case ExecuteWithRetry ''create_user'' create_user_fn DefaultRetryConfig (db, user) of
        (err, (db', user'), n, slept) \<Rightarrow> (err, db', user'))"

definition find_user_fn :: "(User \<Rightarrow> bool) \<Rightarrow> (DB \<times> User) RetryableFunc" where
  "find_user_fn cond = (\<lambda>(db, user).
     (case db_First cond user db of (err, db', user') \<Rightarrow>
        (case err of
           Some e \<Rightarrow>
             if Is_ErrRecordNotFound e
             then (Some e, (db', user'))
             else (Some e, (db', user'))
         | None \<Rightarrow> (None, (db', user')))))"

definition FindUserByEmailWithRetry :: "string \<Rightarrow> DB \<Rightarrow> (error + User) \<times> DB" where
  "FindUserByEmailWithRetry email db =
     (case ExecuteWithRetry ''find_user_by_email'' (find_user_fn (\<lambda>r. Email r = email))
             DefaultRetryConfig (db, zero_User) of
        (Some e, (db', user), n, slept) \<Rightarrow> (Inl e, db')
      | (None, (db', user), n, slept) \<Rightarrow> (Inr user, db'))"

definition FindUserByIDWithRetry :: "nat \<Rightarrow> DB \<Rightarrow> (error + User) \<times> DB" where
  "FindUserByIDWithRetry uid db =
     (case ExecuteWithRetry ''find_user_by_id'' (find_user_fn (\<lambda>r. ID r = uid))
             DefaultRetryConfig (db, zero_User) of
        (Some e, (db', user), n, slept) \<Rightarrow> (Inl e, db')
      | (None, (db', user), n, slept) \<Rightarrow> (Inr user, db'))"

definition update_user_fn :: "(DB \<times> User) RetryableFunc" where
  "update_user_fn = (\<lambda>(db, user).
     (case db_Save user db of (err, db', user') \<Rightarrow>
        (case err of
           Some e \<Rightarrow>
             if Contains (Error e) ''duplicate key'' \<or> Contains (Error e) ''UNIQUE constraint''
             then (Some e, (db', user'))
             else (Some e, (db', user'))
         | None \<Rightarrow> (None, (db', user')))))"

definition UpdateUserWithRetry :: "User \<Rightarrow> DB \<Rightarrow> error option \<times> DB \<times> User" where
  "UpdateUserWithRetry user db =
     (case ExecuteWithRetry ''update_user'' update_user_fn DefaultRetryConfig (db, user) of
        (err, (db', user'), n, slept) \<Rightarrow> (err, db', user'))"

definition DeleteUserWithRetry :: "nat \<Rightarrow> DB \<Rightarrow> error option \<times> DB" where
  "DeleteUserWithRetry uid db =
     (case ExecuteWithRetry ''delete_user'' (db_Delete uid) DefaultRetryConfig db of
        (err, db', n, slept) \<Rightarrow> (err, db'))"

definition GetAllUsersWithRetry :: "DB \<Rightarrow> (error + User list) \<times> DB" where
  "GetAllUsersWithRetry db =
     (case ExecuteWithRetry ''get_all_users''
             (\<lambda>(db, us). case db_Find us db of (err, db', us') \<Rightarrow> (err, (db', us')))
             DefaultRetryConfig (db, []) of
        (Some e, (db', us), n, slept) \<Rightarrow> (Inl e, db')
      | (None, (db', us), n, slept) \<Rightarrow> (Inr us, db'))"

section \<open>Package service\<close>

text \<open>
  The libraries the service and the handlers call are parameters:
  \<^item> \<open>GenerateFromPassword\<close> and \<open>CompareHashAndPassword\<close> are bcrypt's (the cost is fixed
    by the caller; \<open>CompareHashAndPassword\<close> takes the digest first and returns \<open>nil\<close>,
    here \<open>None\<close>, on a match);
  \<^item> \<open>SignedString\<close> is the signing of the token that \<open>generateJWT\<close> builds for a user
    identifier;
  \<^item> \<open>is_email\<close> is the format check behind the binding tag \<open>email\<close>.
\<close>

record Libraries =
  GenerateFromPassword :: "string \<Rightarrow> error + string"
  CompareHashAndPassword :: "string \<Rightarrow> string \<Rightarrow> error option"
  SignedString :: "nat \<Rightarrow> error + string"
  is_email :: "string \<Rightarrow> bool"

definition CreateUser :: "Libraries \<Rightarrow> string \<Rightarrow> string \<Rightarrow> string \<Rightarrow> DB \<Rightarrow> (error + User) \<times> DB" where
  "CreateUser lib name email password db =
     (case GenerateFromPassword lib password of
        Inl err \<Rightarrow> (Inl err, db)
      | Inr hashedPassword \<Rightarrow>
          (case CreateUserWithRetry
                  (zero_User\<lparr>Name := name, Email := email, Password := hashedPassword\<rparr>) db of
             (Some err, db', user) \<Rightarrow> (Inl err, db')
           | (None, db', user) \<Rightarrow> (Inr user, db')))"

definition GetUser :: "nat \<Rightarrow> DB \<Rightarrow> (error + User) \<times> DB" where
  "GetUser uid db = FindUserByIDWithRetry uid db"

definition GetUserByEmail :: "string \<Rightarrow> DB \<Rightarrow> (error + User) \<times> DB" where
  "GetUserByEmail email db = FindUserByEmailWithRetry email db"

definition UpdateUser :: "nat \<Rightarrow> string \<Rightarrow> string \<Rightarrow> DB \<Rightarrow> (error + User) \<times> DB" where
  "UpdateUser uid name email db =
     (case FindUserByIDWithRetry uid db of
        (Inl err, db1) \<Rightarrow> (Inl err, db1)
      | (Inr user, db1) \<Rightarrow>
          (let user1 = (if name \<noteq> [] then user\<lparr>Name := name\<rparr> else user);
               user2 = (if email \<noteq> [] then user1\<lparr>Email := email\<rparr> else user1)
           in case UpdateUserWithRetry user2 db1 of
                (Some err, db2, user3) \<Rightarrow> (Inl err, db2)
              | (None, db2, user3) \<Rightarrow> (Inr user3, db2)))"

definition DeleteUser :: "nat \<Rightarrow> DB \<Rightarrow> error option \<times> DB" where
  "DeleteUser uid db = DeleteUserWithRetry uid db"

definition ListUsers :: "DB \<Rightarrow> (error + User list) \<times> DB" where
  "ListUsers db = GetAllUsersWithRetry db"

definition ValidatePassword :: "Libraries \<Rightarrow> User \<Rightarrow> string \<Rightarrow> error option" where
  "ValidatePassword lib user password = CompareHashAndPassword lib (Password user) password"

section \<open>Package api: the REST handlers\<close>

text \<open>
  A handler's response is the status code and the body given to \<open>c.JSON\<close>. The bodies
  are the \<open>gin.H\<close> maps of the source, one constructor for each set of keys; the text
  of a binding error is the validation library's and is not modelled. The JSON encoding
  of a user leaves the field \<open>Password\<close> out (tag \<open>json:"-"\<close>): \<open>json_User\<close> blanks it.
  The handlers take the decoded request; \<open>api_GetUser\<close>, \<open>api_UpdateUser\<close> and
  \<open>api_DeleteUser\<close> take the result of \<open>strconv.Atoi(c.Param("id"))\<close>, \<open>None\<close> when it
  failed, and convert it with \<open>uint(id)\<close>. The routes of these three and of \<open>api_GetUsers\<close> sit
  behind \<open>AuthMiddleware\<close>, which runs before the handler and is not part of it.
\<close>

datatype H =
    H_error string
  | H_binding_error
  | H_message string
  | H_user User
  | H_users "User list"
  | H_message_user string User
  | H_message_user_token string User string

definition json_User :: "User \<Rightarrow> User" where
  "json_User user = user\<lparr>Password := []\<rparr>"

definition StatusOK :: nat where "StatusOK = 200"
definition StatusCreated :: nat where "StatusCreated = 201"
definition StatusBadRequest :: nat where "StatusBadRequest = 400"
definition StatusUnauthorized :: nat where "StatusUnauthorized = 401"
definition StatusNotFound :: nat where "StatusNotFound = 404"
definition StatusConflict :: nat where "StatusConflict = 409"
definition StatusInternalServerError :: nat where "StatusInternalServerError = 500"

definition uint_of_int :: "int \<Rightarrow> nat" where
  "uint_of_int i = nat (i mod 2 ^ 64)"

definition generateJWT :: "Libraries \<Rightarrow> nat \<Rightarrow> error + string" where
  "generateJWT lib userID = SignedString lib userID"

definition Signup :: "Libraries \<Rightarrow> string \<Rightarrow> string \<Rightarrow> string \<Rightarrow> DB \<Rightarrow> (nat \<times> H) \<times> DB" where
  "Signup lib name email password db =
     (if \<not> bind_SignupRequest (is_email lib) name email password
      then ((StatusBadRequest, H_binding_error), db)
      else case CreateUser lib name email password db of
             (Inl err, db') \<Rightarrow>
               if Contains (Error err) ''duplicate key''
               then ((StatusConflict, H_error ''Email already exists''), db')
               else ((StatusInternalServerError, H_error ''Failed to create user''), db')
           | (Inr user, db') \<Rightarrow>
               (case generateJWT lib (ID user) of
                  Inl err \<Rightarrow> ((StatusInternalServerError, H_error ''Failed to generate token''), db')
                | Inr token \<Rightarrow>
                    ((StatusCreated,
                      H_message_user_token ''User created successfully'' (json_User user) token), db')))"

definition Login :: "Libraries \<Rightarrow> string \<Rightarrow> string \<Rightarrow> DB \<Rightarrow> (nat \<times> H) \<times> DB" where
  "Login lib email password db =
     (if \<not> bind_LoginRequest (is_email lib) email password
      then ((StatusBadRequest, H_binding_error), db)
      else case GetUserByEmail email db of
             (Inl err, db') \<Rightarrow> ((StatusUnauthorized, H_error ''Invalid credentials''), db')
           | (Inr user, db') \<Rightarrow>
               (case ValidatePassword lib user password of
                  Some err \<Rightarrow> ((StatusUnauthorized, H_error ''Invalid credentials''), db')
                | None \<Rightarrow>
                    (case generateJWT lib (ID user) of
                       Inl err \<Rightarrow>
                         ((StatusInternalServerError, H_error ''Failed to generate token''), db')
                     | Inr token \<Rightarrow>
                         ((StatusOK, H_message_user_token ''Login successful'' (json_User user) token),
                          db'))))"

definition api_GetUsers :: "DB \<Rightarrow> (nat \<times> H) \<times> DB" where
  "api_GetUsers db =
     (case ListUsers db of
        (Inl err, db') \<Rightarrow> ((StatusInternalServerError, H_error ''Failed to fetch users''), db')
      | (Inr us, db') \<Rightarrow> ((StatusOK, H_users (map json_User us)), db'))"

definition api_GetUser :: "int option \<Rightarrow> DB \<Rightarrow> (nat \<times> H) \<times> DB" where
  "api_GetUser param db =
     (case param of
        None \<Rightarrow> ((StatusBadRequest, H_error ''Invalid user ID''), db)
      | Some i \<Rightarrow>
          (case GetUser (uint_of_int i) db of
             (Inl err, db') \<Rightarrow> ((StatusNotFound, H_error ''User not found''), db')
           | (Inr user, db') \<Rightarrow> ((StatusOK, H_user (json_User user)), db')))"

definition api_UpdateUser :: "int option \<Rightarrow> string \<Rightarrow> string \<Rightarrow> DB \<Rightarrow> (nat \<times> H) \<times> DB" where
  "api_UpdateUser param name email db =
     (case param of
        None \<Rightarrow> ((StatusBadRequest, H_error ''Invalid user ID''), db)
      | Some i \<Rightarrow>
          (case UpdateUser (uint_of_int i) name email db of
             (Inl err, db') \<Rightarrow>
               if Contains (Error err) ''duplicate key''
               then ((StatusConflict, H_error ''Email already exists''), db')
               else ((StatusInternalServerError, H_error ''Failed to update user''), db')
           | (Inr user, db') \<Rightarrow>
               ((StatusOK, H_message_user ''User updated successfully'' (json_User user)), db')))"

definition api_DeleteUser :: "int option \<Rightarrow> DB \<Rightarrow> (nat \<times> H) \<times> DB" where
  "api_DeleteUser param db =
     (case param of
        None \<Rightarrow> ((StatusBadRequest, H_error ''Invalid user ID''), db)
      | Some i \<Rightarrow>
          (case DeleteUser (uint_of_int i) db of
             (Some err, db') \<Rightarrow>
               ((StatusInternalServerError, H_error ''Failed to delete user''), db')
           | (None, db') \<Rightarrow> ((StatusOK, H_message ''User deleted successfully''), db')))"

section \<open>Package grpc: the RPC methods\<close>

text \<open>
  A method returns a response or a status error (\<open>status.Error(code, msg)\<close>). The
  identifier of a request is a \<open>uint32\<close>; \<open>userToProtoUser\<close> truncates the identifier
  to \<open>uint32\<close> and formats the timestamps (the formatting is not modelled).
\<close>

datatype Code = InvalidArgument | NotFound | AlreadyExists | Unauthenticated | Internal

record ProtoUser =
  proto_Id :: nat
  proto_Name :: string
  proto_Email :: string
  proto_CreatedAt :: int
  proto_UpdatedAt :: int

datatype Response =
    UserResponse ProtoUser string
  | DeleteUserResponse string
  | ListUsersResponse "ProtoUser list"

definition userToProtoUser :: "User \<Rightarrow> ProtoUser" where
  "userToProtoUser user =
     \<lparr>proto_Id = ID user mod 2 ^ 32, proto_Name = Name user, proto_Email = Email user,
      proto_CreatedAt = CreatedAt user, proto_UpdatedAt = UpdatedAt user\<rparr>"

definition grpc_CreateUser ::
  "Libraries \<Rightarrow> string \<Rightarrow> string \<Rightarrow> string \<Rightarrow> DB \<Rightarrow> ((Code \<times> string) + Response) \<times> DB" where
  "grpc_CreateUser lib name email password db =
     (if name = [] \<or> email = [] \<or> password = []
      then (Inl (InvalidArgument, ''name, email, and password are required''), db)
      else case CreateUser lib name email password db of
             (Inl err, db') \<Rightarrow>
               if Contains (Error err) ''duplicate key''
               then (Inl (AlreadyExists, ''email already exists''), db')
               else (Inl (Internal, ''failed to create user''), db')
           | (Inr user, db') \<Rightarrow>
               (Inr (UserResponse (userToProtoUser user) ''User created successfully''), db'))"

definition grpc_GetUser :: "nat \<Rightarrow> DB \<Rightarrow> ((Code \<times> string) + Response) \<times> DB" where
  "grpc_GetUser uid db =
     (case GetUser uid db of
        (Inl err, db') \<Rightarrow> (Inl (NotFound, ''user not found''), db')
      | (Inr user, db') \<Rightarrow>
          (Inr (UserResponse (userToProtoUser user) ''User retrieved successfully''), db'))"

definition grpc_UpdateUser ::
  "nat \<Rightarrow> string \<Rightarrow> string \<Rightarrow> DB \<Rightarrow> ((Code \<times> string) + Response) \<times> DB" where
  "grpc_UpdateUser uid name email db =
     (case UpdateUser uid name email db of
        (Inl err, db') \<Rightarrow>
          if Contains (Error err) ''duplicate key''
          then (Inl (AlreadyExists, ''email already exists''), db')
          else (Inl (Internal, ''failed to update user''), db')
      | (Inr user, db') \<Rightarrow>
          (Inr (UserResponse (userToProtoUser user) ''User updated successfully''), db'))"

definition grpc_DeleteUser :: "nat \<Rightarrow> DB \<Rightarrow> ((Code \<times> string) + Response) \<times> DB" where
  "grpc_DeleteUser uid db =
     (case DeleteUser uid db of
        (Some err, db') \<Rightarrow> (Inl (Internal, ''failed to delete user''), db')
      | (None, db') \<Rightarrow> (Inr (DeleteUserResponse ''User deleted successfully''), db'))"

definition grpc_ListUsers :: "DB \<Rightarrow> ((Code \<times> string) + Response) \<times> DB" where
  "grpc_ListUsers db =
     (case ListUsers db of
        (Inl err, db') \<Rightarrow> (Inl (Internal, ''failed to list users''), db')
      | (Inr us, db') \<Rightarrow> (Inr (ListUsersResponse (map userToProtoUser us)), db'))"

section \<open>Domain outcomes\<close>

text \<open>
  To compare the two adapters, a response of either is read as a domain outcome: success
  with the users it carries (in the shape both can show, which leaves the password out),
  or the kind of failure. The status codes and the RPC codes are read by the surface's own
  convention: 400 and \<open>InvalidArgument\<close> reject the request, 409 and \<open>AlreadyExists\<close> are a
  conflict, 404 and \<open>NotFound\<close> a missing user, 401 and \<open>Unauthenticated\<close> a denial, and
  500 and \<open>Internal\<close> a failure.
\<close>

datatype Outcome = Succeeded "ProtoUser list" | Rejected | Conflict | Missing | Denied | Failed

fun body_users :: "H \<Rightarrow> User list" where
  "body_users (H_user user) = [user]"
| "body_users (H_users us) = us"
| "body_users (H_message_user msg user) = [user]"
| "body_users (H_message_user_token msg user token) = [user]"
| "body_users body = []"

definition http_outcome :: "nat \<times> H \<Rightarrow> Outcome" where
  "http_outcome response =
     (case response of (status, body) \<Rightarrow>
        if status = StatusOK \<or> status = StatusCreated
        then Succeeded (map userToProtoUser (body_users body))
        else if status = StatusBadRequest then Rejected
        else if status = StatusConflict then Conflict
        else if status = StatusNotFound then Missing
        else if status = StatusUnauthorized then Denied
        else Failed)"

fun grpc_outcome :: "(Code \<times> string) + Response \<Rightarrow> Outcome" where
  "grpc_outcome (Inr (UserResponse user msg)) = Succeeded [user]"
| "grpc_outcome (Inr (DeleteUserResponse msg)) = Succeeded []"
| "grpc_outcome (Inr (ListUsersResponse us)) = Succeeded us"
| "grpc_outcome (Inl (InvalidArgument, msg)) = Rejected"
| "grpc_outcome (Inl (AlreadyExists, msg)) = Conflict"
| "grpc_outcome (Inl (NotFound, msg)) = Missing"
| "grpc_outcome (Inl (Unauthenticated, msg)) = Denied"
| "grpc_outcome (Inl (Internal, msg)) = Failed"

section \<open>Example values\<close>

text \<open>
  Concrete libraries and a concrete store, for the examples: a stand-in digest that
  prefixes the password, a token that does not depend on the identifier, a format check
  that looks for the at sign; an empty, reachable store.
\<close>

definition example_lib :: Libraries where
  "example_lib =
     \<lparr>GenerateFromPassword = (\<lambda>p. Inr (''$2a$'' @ p)),
      CompareHashAndPassword =
        (\<lambda>h p. if h = ''$2a$'' @ p then None else Some ErrMismatchedHashAndPassword),
      SignedString = (\<lambda>i. Inr ''token''),
      is_email = (\<lambda>s. CHR ''@'' \<in> set s)\<rparr>"

definition example_db :: DB where
  "example_db = \<lparr>users = [], next_id = 1, clock = 1700000000, faults = [], calls = 0\<rparr>"

definition failing_fn :: "nat RetryableFunc" where
  "failing_fn = (\<lambda>s. (Some (DriverError ''connection refused''), Suc s))"

text \<open>The user that the first signup of the examples stores, and the store after it.\<close>

definition ann :: User where
  "ann = \<lparr>ID = 1, Name = ''Ann'', Email = ''ann@x.com'', Password = ''$2a$secret1'',
           CreatedAt = 1700000000, UpdatedAt = 1700000000\<rparr>"

definition ann_db :: DB where
  "ann_db = \<lparr>users = [ann], next_id = 2, clock = 1700000000, faults = [], calls = 1\<rparr>"

text \<open>
  A second user, the store that holds both, and the store of the first user at a time when
  the next three physical calls fail.
\<close>

definition bob :: User where
  "bob = \<lparr>ID = 2, Name = ''Bob'', Email = ''bob@x.com'', Password = ''$2a$secret2'',
           CreatedAt = 1700000000, UpdatedAt = 1700000000\<rparr>"

definition ann_bob_db :: DB where
  "ann_bob_db = \<lparr>users = [ann, bob], next_id = 3, clock = 1700000000, faults = [], calls = 2\<rparr>"

definition unreachable_db :: DB where
  "unreachable_db =
     ann_db\<lparr>faults := [Some ''connection refused'', Some ''connection refused'',
                       Some ''connection refused'']\<rparr>"

text \<open>
  The store of the first user at a time when the first two of the next physical calls
  reach the table and the third fails.
\<close>

definition flaky_db :: DB where
  "flaky_db = ann_db\<lparr>faults := [None, None, Some ''connection refused'']\<rparr>"

section \<open>The retry executor: lemmas\<close>

declare retry_loop.simps [simp del]
declare drop_bits.simps [simp del]
declare itoa_nat.simps [simp del]

lemma drop_bits_small: "m < 2 ^ 53 \<Longrightarrow> drop_bits m = 0"
  by (subst drop_bits.simps) simp

lemma float64_of_int_exact: "\<bar>i\<bar> < 2 ^ 53 \<Longrightarrow> float64_of_int i = i"
proof -
  assume a: "\<bar>i\<bar> < 2 ^ 53"
  then have "nat \<bar>i\<bar> < 2 ^ 53" by (simp add: nat_less_iff)
  then have "drop_bits (nat \<bar>i\<bar>) = 0" by (rule drop_bits_small)
  then show ?thesis
    by (simp add: float64_of_int_def Let_def mult_sgn_abs)
qed

lemma wrap64_id: "- (2 ^ 63) \<le> i \<Longrightarrow> i < 2 ^ 63 \<Longrightarrow> wrap64 i = i"
  by (simp add: wrap64_def)

lemma float_product_exact:
  assumes "0 \<le> y" "y < 1024" "- (2 ^ 63) \<le> f * 2 ^ nat y" "f * 2 ^ nat y < 2 ^ 63"
  shows "float_product_to_int64 f y = Some (f * 2 ^ nat y)"
  using assms unfolding float_product_to_int64_def Let_def by simp

lemma calculateDelay_exact:
  assumes "0 \<le> y" "y < 1024" "\<bar>baseDelay\<bar> < 2 ^ 53"
    and "- (2 ^ 63) \<le> baseDelay * 2 ^ nat y" "baseDelay * 2 ^ nat y < 2 ^ 63"
  shows "calculateDelay (y + 1) baseDelay maxDelay = Some (min (baseDelay * 2 ^ nat y) maxDelay)"
proof -
  have w: "wrap64 (y + 1 - 1) = y" using assms(1,2) by (simp add: wrap64_id)
  have f: "float64_of_int baseDelay = baseDelay" using assms(3) by (rule float64_of_int_exact)
  have p: "float_product_to_int64 baseDelay y = Some (baseDelay * 2 ^ nat y)"
    using assms(1,2,4,5) by (rule float_product_exact)
  show ?thesis
    unfolding calculateDelay_def w f p by (simp add: min_def)
qed

lemma pow_bound:
  assumes "0 < (b::int)" "b * 2 ^ n < 2 ^ 63"
  shows "n < 63"
proof (rule ccontr)
  assume "\<not> n < 63"
  then have "63 \<le> n" by simp
  then have "(2::int) ^ 63 \<le> 2 ^ n" by (intro power_increasing) simp_all
  also have "\<dots> \<le> b * 2 ^ n" using assms(1) by simp
  finally show False using assms(2) by simp
qed

lemma default_capped:
  assumes "7 \<le> k" "k \<le> 38"
  shows "calculateDelay (int k - 1) (BaseDelay DefaultRetryConfig) (MaxDelay DefaultRetryConfig) = Some (2 * Second)"
proof -
  have b: "BaseDelay DefaultRetryConfig = 100000000" "MaxDelay DefaultRetryConfig = 2000000000"
    by (simp_all add: DefaultRetryConfig_def Millisecond_def Second_def)
  define p :: int where "p = 2 ^ nat (int (k - 2))"
  have "p = 2 ^ (k - 2)" by (simp add: p_def)
  moreover have "(2::int) ^ (k - 2) \<le> 2 ^ 36" using assms by (intro power_increasing) simp_all
  moreover have "(2::int) ^ 5 \<le> 2 ^ (k - 2)" using assms by (intro power_increasing) simp_all
  ultimately have le: "p \<le> 68719476736" and ge: "32 \<le> p" by simp_all
  have "calculateDelay (int (k - 2) + 1) 100000000 2000000000
          = Some (min (100000000 * 2 ^ nat (int (k - 2))) 2000000000)"
  proof (rule calculateDelay_exact)
    show "0 \<le> int (k - 2)" by simp
    show "int (k - 2) < 1024" using assms by simp
    show "\<bar>100000000::int\<bar> < 2 ^ 53" by simp
    show "- (2 ^ 63) \<le> (100000000::int) * 2 ^ nat (int (k - 2))" using ge unfolding p_def[symmetric] by simp
    show "(100000000::int) * 2 ^ nat (int (k - 2)) < 2 ^ 63" using le unfolding p_def[symmetric] by simp
  qed
  moreover have "int (k - 2) + 1 = int k - 1" using assms by simp
  ultimately have "calculateDelay (int k - 1) 100000000 2000000000 = Some (min (100000000 * p) 2000000000)"
    unfolding p_def by simp
  moreover have "min (100000000 * p) 2000000000 = 2000000000" using ge by simp
  ultimately show ?thesis by (simp add: b Second_def Millisecond_def)
qed

lemma delays_default:
  "calculateDelay 1 (BaseDelay DefaultRetryConfig) (MaxDelay DefaultRetryConfig) = Some (100 * Millisecond)"
  "calculateDelay 2 (BaseDelay DefaultRetryConfig) (MaxDelay DefaultRetryConfig) = Some (200 * Millisecond)"
  by (simp_all add: calculateDelay_def DefaultRetryConfig_def Millisecond_def Second_def
        float64_of_int_def float_product_to_int64_def wrap64_def drop_bits_small Let_def)

lemma ExecuteWithRetry_default:
  "ExecuteWithRetry operation fn DefaultRetryConfig s =
     (case fn s of
        (None, s1) \<Rightarrow> (None, s1, 1, [])
      | (Some e1, s1) \<Rightarrow>
          (case fn s1 of
             (None, s2) \<Rightarrow> (None, s2, 2, [Some (100 * Millisecond)])
           | (Some e2, s2) \<Rightarrow>
               (case fn s2 of
                  (None, s3) \<Rightarrow> (None, s3, 3, [Some (100 * Millisecond), Some (200 * Millisecond)])
                | (Some e3, s3) \<Rightarrow>
                    (Some (RetryError operation 3 (Some e3)), s3, 3,
                     [Some (100 * Millisecond), Some (200 * Millisecond)]))))"
proof -
  have m: "MaxAttempts DefaultRetryConfig = 3" by (simp add: DefaultRetryConfig_def)
  show ?thesis
    unfolding ExecuteWithRetry_def
    apply (subst retry_loop.simps)
    apply (subst retry_loop.simps)
    apply (subst retry_loop.simps)
    apply (simp add: m failed_after_def delays_default split: prod.splits option.splits)
    done
qed

lemma retry_loop_all_fail:
  shows "\<forall>s. fst (fn s) \<noteq> None \<Longrightarrow> attempt \<le> MaxAttempts config \<Longrightarrow>
     (case retry_loop operation fn config attempt lastErr s n slept of
        (err, s', n', slept') \<Rightarrow>
          (\<exists>e s0. fn s0 = (Some e, s') \<and>
                  err = Some (RetryError operation (MaxAttempts config) (Some e))) \<and>
          n' = n + nat (MaxAttempts config - attempt + 1) \<and>
          slept' = slept @ map (\<lambda>a. calculateDelay a (BaseDelay config) (MaxDelay config))
                             [attempt..MaxAttempts config - 1])"
proof (induction operation fn config attempt lastErr s n slept rule: retry_loop.induct)
  case (1 operation fn config attempt lastErr s n slept)
  note fails = "1.prems"(1) and le = "1.prems"(2)
  obtain r s' where r: "fn s = (r, s')" by (cases "fn s")
  with fails have "r \<noteq> None" by (metis fst_conv)
  then obtain e where fs: "fn s = (Some e, s')" using r by auto
  show ?case
  proof (cases "attempt = MaxAttempts config")
    case True
    have "retry_loop operation fn config attempt lastErr s n slept =
            (Some (failed_after operation config (Some e)), s', Suc n, slept)"
      using fs True by (subst retry_loop.simps) simp
    then show ?thesis
      using fs True by (auto simp: failed_after_def)
  next
    case False
    with le have lt: "attempt + 1 \<le> MaxAttempts config" by simp
    have up: "[attempt..MaxAttempts config - 1] = attempt # [attempt + 1..MaxAttempts config - 1]"
      using lt by (simp add: upto_rec1)
    have n: "nat (MaxAttempts config - attempt + 1) = Suc (nat (MaxAttempts config - (attempt + 1) + 1))"
      using lt by simp
    have unf: "retry_loop operation fn config attempt lastErr s n slept =
            retry_loop operation fn config (attempt + 1) (Some e) s' (Suc n)
               (slept @ [calculateDelay attempt (BaseDelay config) (MaxDelay config)])"
      using fs False le by (subst retry_loop.simps) simp
    from "1.IH"[OF le fs[symmetric] refl False fails lt]
    show ?thesis
      unfolding unf up n by (simp split: prod.splits)
  qed
qed

lemma retry_loop_rule:
  "(\<And>s e s'. P s \<Longrightarrow> fn s = (Some e, s') \<Longrightarrow> P s') \<Longrightarrow>
   (\<And>s s'. P s \<Longrightarrow> fn s = (None, s') \<Longrightarrow> Q s') \<Longrightarrow> P s \<Longrightarrow>
   (case retry_loop operation fn config attempt lastErr s n slept of
      (r, s', n', slept') \<Rightarrow> (case r of None \<Rightarrow> Q s' | Some e \<Rightarrow> P s'))"
proof (induction operation fn config attempt lastErr s n slept rule: retry_loop.induct)
  case (1 operation fn config attempt lastErr s n slept)
  note fail = "1.prems"(1) and ok = "1.prems"(2) and P = "1.prems"(3)
  show ?case
  proof (cases "attempt \<le> MaxAttempts config")
    case False
    then show ?thesis using P by (subst retry_loop.simps) simp
  next
    case le: True
    obtain r s' where fs: "fn s = (r, s')" by (cases "fn s")
    show ?thesis
    proof (cases r)
      case None
      then show ?thesis using le fs ok[OF P] by (subst retry_loop.simps) simp
    next
      case (Some e)
      with fs have fse: "fn s = (Some e, s')" by simp
      have P': "P s'" using fail[OF P fse] .
      show ?thesis
      proof (cases "attempt = MaxAttempts config")
        case True
        then show ?thesis using le fse P' by (subst retry_loop.simps) simp
      next
        case False
        have unf: "retry_loop operation fn config attempt lastErr s n slept =
            retry_loop operation fn config (attempt + 1) (Some e) s' (Suc n)
               (slept @ [calculateDelay attempt (BaseDelay config) (MaxDelay config)])"
          using fse False le by (subst retry_loop.simps) simp
        show ?thesis
          unfolding unf
          by (rule "1.IH"[OF le fse[symmetric] refl False fail ok P'])
      qed
    qed
  qed
qed

lemma ExecuteWithRetry_rule:
  assumes "\<And>s e s'. P s \<Longrightarrow> fn s = (Some e, s') \<Longrightarrow> P s'"
    and "\<And>s s'. P s \<Longrightarrow> fn s = (None, s') \<Longrightarrow> Q s'"
    and "P s"
    and "ExecuteWithRetry operation fn config s = (r, s', n', slept')"
  shows "case r of None \<Rightarrow> Q s' | Some e \<Rightarrow> P s'"
  using retry_loop_rule[of P fn Q s operation config 1 None 0 "[]", OF assms(1,2,3)] assms(4)
  by (simp add: ExecuteWithRetry_def)

lemma db_begin_nofault: "faults db = [] \<Longrightarrow> db_begin db = (None, db\<lparr>calls := Suc (calls db)\<rparr>)"
  by (simp add: db_begin_def)

lemma db_begin_frame:
  "db_begin db = (f, db') \<Longrightarrow> users db' = users db \<and> clock db' = clock db \<and> next_id db' = next_id db"
  by (auto simp: db_begin_def split: list.splits)

lemma find_user_fn_missing:
  "faults db = [] \<Longrightarrow> find cond (users db) = None \<Longrightarrow>
   find_user_fn cond (db, u) = (Some ErrRecordNotFound, (db\<lparr>calls := Suc (calls db)\<rparr>, u))"
  by (simp add: find_user_fn_def db_First_def db_begin_nofault)

lemma find_user_fn_found:
  "faults db = [] \<Longrightarrow> find cond (users db) = Some row \<Longrightarrow>
   find_user_fn cond (db, u) = (None, (db\<lparr>calls := Suc (calls db)\<rparr>, row))"
  by (simp add: find_user_fn_def db_First_def db_begin_nofault)

lemma GetUser_missing:
  assumes "faults db = []" and "find (\<lambda>r. ID r = uid) (users db) = None"
  shows "GetUser uid db =
           (Inl (RetryError ''find_user_by_id'' 3 (Some ErrRecordNotFound)),
            db\<lparr>calls := calls db + 3\<rparr>)"
  using assms
  by (simp add: GetUser_def FindUserByIDWithRetry_def ExecuteWithRetry_default find_user_fn_missing)

lemma default_schedule:
  "map (\<lambda>k. calculateDelay (k - 1) (BaseDelay DefaultRetryConfig) (MaxDelay DefaultRetryConfig))
       [2, 3, 4, 5, 6]
   = map Some [100 * Millisecond, 200 * Millisecond, 400 * Millisecond, 800 * Millisecond,
               1600 * Millisecond]"
  by (simp add: calculateDelay_def DefaultRetryConfig_def Millisecond_def Second_def
        float64_of_int_def float_product_to_int64_def wrap64_def drop_bits_small Let_def)

lemma calculateDelay_doubling:
  assumes "2 \<le> k" "0 < baseDelay" "baseDelay < 2 ^ 53" "baseDelay * 2 ^ (k - 2) < 2 ^ 63"
  shows "calculateDelay (int k - 1) baseDelay maxDelay = Some (min (baseDelay * 2 ^ (k - 2)) maxDelay)"
proof -
  have n: "k - 2 < 63" using assms(2,4) by (rule pow_bound)
  have "calculateDelay (int (k - 2) + 1) baseDelay maxDelay
          = Some (min (baseDelay * 2 ^ nat (int (k - 2))) maxDelay)"
  proof (rule calculateDelay_exact)
    show "0 \<le> int (k - 2)" by simp
    show "int (k - 2) < 1024" using n by simp
    show "\<bar>baseDelay\<bar> < 2 ^ 53" using assms(2,3) by simp
    have "0 \<le> baseDelay * 2 ^ nat (int (k - 2))" using assms(2) by simp
    then show "- (2 ^ 63) \<le> baseDelay * 2 ^ nat (int (k - 2))" by simp
    show "baseDelay * 2 ^ nat (int (k - 2)) < 2 ^ 63" using assms(4) by simp
  qed
  then have "calculateDelay (int (k - 2) + 1) baseDelay maxDelay
          = Some (min (baseDelay * 2 ^ (k - 2)) maxDelay)"
    by (simp only: nat_int)
  moreover have "int (k - 2) + 1 = int k - 1" using assms(1) by simp
  ultimately show ?thesis by (simp only:)
qed

lemma slept_all_fail:
  assumes "1 \<le> MaxAttempts config" "\<forall>s. fst (fn s) \<noteq> None"
  shows "snd (snd (snd (ExecuteWithRetry operation fn config s))) =
           map (\<lambda>a. calculateDelay a (BaseDelay config) (MaxDelay config))
               [1..MaxAttempts config - 1]"
  using retry_loop_all_fail[where fn = fn and config = config and attempt = 1
      and operation = operation and lastErr = None and s = s and n = 0 and slept = "[]",
      OF assms(2) assms(1)]
  by (auto simp: ExecuteWithRetry_def split: prod.splits)

lemma invocations_Suc: "invocations fn (Suc k) s = snd (fn (invocations fn k s))"
  by (induction k arbitrary: s) simp_all

lemma retry_loop_failures:
  "attempt \<le> MaxAttempts config \<Longrightarrow>
   \<forall>k < nat (MaxAttempts config - attempt + 1). fst (fn (invocations fn k s)) \<noteq> None \<Longrightarrow>
   retry_loop operation fn config attempt lastErr s n slept =
     (Some (RetryError operation (MaxAttempts config)
              (fst (fn (invocations fn (nat (MaxAttempts config - attempt)) s)))),
      invocations fn (nat (MaxAttempts config - attempt + 1)) s,
      n + nat (MaxAttempts config - attempt + 1),
      slept @ map (\<lambda>a. calculateDelay a (BaseDelay config) (MaxDelay config))
                  [attempt..MaxAttempts config - 1])"
proof (induction operation fn config attempt lastErr s n slept rule: retry_loop.induct)
  case (1 operation fn config attempt lastErr s n slept)
  note le = "1.prems"(1) and fails = "1.prems"(2)
  obtain r s' where r: "fn s = (r, s')" by (cases "fn s")
  from fails[rule_format, of 0] le have "fst (fn s) \<noteq> None" by simp
  with r obtain e where fs: "fn s = (Some e, s')" by auto
  show ?case
  proof (cases "attempt = MaxAttempts config")
    case True
    have "retry_loop operation fn config attempt lastErr s n slept =
            (Some (failed_after operation config (Some e)), s', Suc n, slept)"
      using fs True by (subst retry_loop.simps) simp
    then show ?thesis
      using fs True by (simp add: failed_after_def)
  next
    case False
    with le have lt: "attempt + 1 \<le> MaxAttempts config" by simp
    have up: "[attempt..MaxAttempts config - 1] = attempt # [attempt + 1..MaxAttempts config - 1]"
      using lt by (simp add: upto_rec1)
    have n1: "nat (MaxAttempts config - attempt + 1) = Suc (nat (MaxAttempts config - (attempt + 1) + 1))"
      using lt by simp
    have n0: "nat (MaxAttempts config - attempt) = Suc (nat (MaxAttempts config - (attempt + 1)))"
      using lt by simp
    have unf: "retry_loop operation fn config attempt lastErr s n slept =
            retry_loop operation fn config (attempt + 1) (Some e) s' (Suc n)
               (slept @ [calculateDelay attempt (BaseDelay config) (MaxDelay config)])"
      using fs False le by (subst retry_loop.simps) simp
    have fails': "\<forall>k < nat (MaxAttempts config - (attempt + 1) + 1). fst (fn (invocations fn k s')) \<noteq> None"
    proof (intro allI impI)
      fix k assume "k < nat (MaxAttempts config - (attempt + 1) + 1)"
      then have "Suc k < nat (MaxAttempts config - attempt + 1)" using n1 by simp
      from fails[rule_format, OF this] show "fst (fn (invocations fn k s')) \<noteq> None"
        using fs by simp
    qed
    have s': "s' = snd (fn s)" using fs by simp
    from "1.IH"[OF le fs[symmetric] refl False lt fails']
    show ?thesis
      unfolding unf up n1 n0 by (simp add: s')
  qed
qed

section \<open>The data-access layer and the service: lemmas\<close>

lemma db_First_result:
  "db_First cond u db = (r, db', u') \<Longrightarrow>
     users db' = users db \<and> clock db' = clock db \<and>
     (case r of None \<Rightarrow> find cond (users db) = Some u' | Some e \<Rightarrow> u' = u)"
  by (auto simp: db_First_def db_begin_def split: list.splits option.splits)

lemma find_user_fn_result:
  "find_user_fn cond (db, u) = (r, (db', u')) \<Longrightarrow>
     users db' = users db \<and> clock db' = clock db \<and>
     (case r of None \<Rightarrow> find cond (users db) = Some u' | Some e \<Rightarrow> u' = u)"
proof -
  assume a: "find_user_fn cond (db, u) = (r, (db', u'))"
  obtain r0 db0 u0 where f: "db_First cond u db = (r0, db0, u0)"
    by (cases "db_First cond u db") auto
  from a f have "r0 = r \<and> db0 = db' \<and> u0 = u'"
    by (auto simp: find_user_fn_def split: option.splits if_splits)
  with db_First_result[OF f] show ?thesis by (auto split: option.splits)
qed

lemma find_retry_result:
  assumes "ExecuteWithRetry operation (find_user_fn cond) config (db, u) = (r, (db', u'), n, slept)"
  shows "users db' = users db \<and> clock db' = clock db \<and> (r = None \<longrightarrow> find cond (users db) = Some u')"
proof -
  let ?P = "\<lambda>s. users (fst s) = users db \<and> clock (fst s) = clock db"
  let ?Q = "\<lambda>s. users (fst s) = users db \<and> clock (fst s) = clock db \<and> find cond (users db) = Some (snd s)"
  have "case r of None \<Rightarrow> ?Q (db', u') | Some e \<Rightarrow> ?P (db', u')"
  proof (rule ExecuteWithRetry_rule[where P = ?P and Q = ?Q, OF _ _ _ assms])
    fix s :: "DB \<times> User" and e s' assume a: "?P s" "find_user_fn cond s = (Some e, s')"
    obtain d0 u0 d1 u1 where "s = (d0, u0)" "s' = (d1, u1)" by (cases s, cases s')
    then show "?P s'"
      using a find_user_fn_result[of cond d0 u0 "Some e" d1 u1] by simp
  next
    fix s :: "DB \<times> User" and s' assume a: "?P s" "find_user_fn cond s = (None, s')"
    obtain d0 u0 d1 u1 where "s = (d0, u0)" "s' = (d1, u1)" by (cases s, cases s')
    then show "?Q s'"
      using a find_user_fn_result[of cond d0 u0 None d1 u1] by simp
  next
    show "?P (db, u)" by simp
  qed
  then show ?thesis by (cases r) auto
qed

lemma FindUserByIDWithRetry_Inr:
  assumes "FindUserByIDWithRetry uid db = (Inr u, db1)"
  shows "find (\<lambda>r. ID r = uid) (users db) = Some u \<and> users db1 = users db \<and> clock db1 = clock db"
proof -
  obtain r db' u' n slept where e:
    "ExecuteWithRetry ''find_user_by_id'' (find_user_fn (\<lambda>r. ID r = uid)) DefaultRetryConfig (db, zero_User)
       = (r, (db', u'), n, slept)"
    by (metis surj_pair)
  with assms have "r = None \<and> u' = u \<and> db' = db1"
    by (auto simp: FindUserByIDWithRetry_def split: option.splits)
  with find_retry_result[OF e] show ?thesis by simp
qed

lemma FindUserByIDWithRetry_Inl:
  assumes "FindUserByIDWithRetry uid db = (Inl e, db1)"
  shows "users db1 = users db \<and> clock db1 = clock db"
proof -
  obtain r db' u' n slept where e:
    "ExecuteWithRetry ''find_user_by_id'' (find_user_fn (\<lambda>r. ID r = uid)) DefaultRetryConfig (db, zero_User)
       = (r, (db', u'), n, slept)"
    by (metis surj_pair)
  with assms have "db' = db1"
    by (auto simp: FindUserByIDWithRetry_def split: option.splits)
  with find_retry_result[OF e] show ?thesis by simp
qed


lemma db_Save_result:
  "db_Save u db = (r, db', u') \<Longrightarrow>
     clock db' = clock db \<and>
     (case r of
        Some e \<Rightarrow> users db' = users db \<and> u' = u
      | None \<Rightarrow>
          u' = u\<lparr>UpdatedAt := clock db\<rparr> \<and>
          users db' =
            (if list_ex (\<lambda>r. ID r = ID u) (users db)
             then map (\<lambda>r. if ID r = ID u then u' else r) (users db)
             else users db @ [u']))"
  by (auto simp: db_Save_def db_begin_def Let_def split: list.splits option.splits if_splits)

lemma update_user_fn_result:
  "update_user_fn (db, u) = (r, (db', u')) \<Longrightarrow>
     clock db' = clock db \<and>
     (case r of
        Some e \<Rightarrow> users db' = users db \<and> u' = u
      | None \<Rightarrow>
          u' = u\<lparr>UpdatedAt := clock db\<rparr> \<and>
          users db' =
            (if list_ex (\<lambda>r. ID r = ID u) (users db)
             then map (\<lambda>r. if ID r = ID u then u' else r) (users db)
             else users db @ [u']))"
proof -
  assume a: "update_user_fn (db, u) = (r, (db', u'))"
  obtain r0 db0 u0 where f: "db_Save u db = (r0, db0, u0)"
    by (cases "db_Save u db") auto
  from a f have "r0 = r \<and> db0 = db' \<and> u0 = u'"
    by (auto simp: update_user_fn_def split: option.splits if_splits)
  with db_Save_result[OF f] show ?thesis by (auto split: option.splits)
qed

lemma UpdateUserWithRetry_result:
  assumes "UpdateUserWithRetry u db = (r, db', u')"
  shows "case r of
           Some e \<Rightarrow> users db' = users db
         | None \<Rightarrow>
             u' = u\<lparr>UpdatedAt := clock db\<rparr> \<and>
             users db' =
               (if list_ex (\<lambda>r. ID r = ID u) (users db)
                then map (\<lambda>r. if ID r = ID u then u' else r) (users db)
                else users db @ [u'])"
proof -
  let ?P = "\<lambda>s. users (fst s) = users db \<and> clock (fst s) = clock db \<and> snd s = u"
  let ?Q = "\<lambda>s. snd s = u\<lparr>UpdatedAt := clock db\<rparr> \<and>
             users (fst s) =
               (if list_ex (\<lambda>r. ID r = ID u) (users db)
                then map (\<lambda>r. if ID r = ID u then snd s else r) (users db)
                else users db @ [snd s])"
  obtain n slept where e:
    "ExecuteWithRetry ''update_user'' update_user_fn DefaultRetryConfig (db, u) = (r, (db', u'), n, slept)"
    using assms by (auto simp: UpdateUserWithRetry_def split: prod.splits)
  have "case r of None \<Rightarrow> ?Q (db', u') | Some e \<Rightarrow> ?P (db', u')"
  proof (rule ExecuteWithRetry_rule[where P = ?P and Q = ?Q, OF _ _ _ e])
    fix s :: "DB \<times> User" and e s' assume a: "?P s" "update_user_fn s = (Some e, s')"
    obtain d0 u0 d1 u1 where "s = (d0, u0)" "s' = (d1, u1)" by (cases s, cases s')
    then show "?P s'"
      using a update_user_fn_result[of d0 u0 "Some e" d1 u1] by simp
  next
    fix s :: "DB \<times> User" and s' assume a: "?P s" "update_user_fn s = (None, s')"
    obtain d0 u0 d1 u1 where "s = (d0, u0)" "s' = (d1, u1)" by (cases s, cases s')
    then show "?Q s'"
      using a update_user_fn_result[of d0 u0 None d1 u1] by simp
  next
    show "?P (db, u)" by simp
  qed
  then show ?thesis by (cases r) auto
qed

lemma find_ID_Some: "find (\<lambda>r. ID r = uid) us = Some u \<Longrightarrow> ID u = uid \<and> list_ex (\<lambda>r. ID r = uid) us"
  by (induction us) (auto split: if_splits)

lemma find_map_replace:
  "find (\<lambda>r. ID r = uid) us = Some u \<Longrightarrow> ID row = uid \<Longrightarrow>
   find (\<lambda>r. ID r = uid) (map (\<lambda>r. if ID r = uid then row else r) us) = Some row"
  by (induction us) (auto split: if_splits)

lemma UpdateUser_Inr:
  assumes "UpdateUser uid name email db = (Inr user', db')"
  shows "\<exists>user. find (\<lambda>r. ID r = uid) (users db) = Some user \<and>
           user' = user\<lparr>Name := (if name = [] then Name user else name),
                        Email := (if email = [] then Email user else email),
                        UpdatedAt := clock db\<rparr> \<and>
           find (\<lambda>r. ID r = uid) (users db') = Some user' \<and>
           users db' = map (\<lambda>r. if ID r = uid then user' else r) (users db)"
proof -
  obtain res db1 where f: "FindUserByIDWithRetry uid db = (res, db1)"
    by (cases "FindUserByIDWithRetry uid db") auto
  with assms obtain user where res: "res = Inr user"
    by (cases res) (auto simp: UpdateUser_def)
  let ?u2 = "user\<lparr>Name := (if name = [] then Name user else name),
                   Email := (if email = [] then Email user else email)\<rparr>"
  have u2: "(let user1 = (if name \<noteq> [] then user\<lparr>Name := name\<rparr> else user);
                 user2 = (if email \<noteq> [] then user1\<lparr>Email := email\<rparr> else user1) in user2) = ?u2"
    by (simp add: Let_def)
  obtain r db2 u3 where s: "UpdateUserWithRetry ?u2 db1 = (r, db2, u3)"
    by (cases "UpdateUserWithRetry ?u2 db1") auto
  from assms f res s have ok: "r = None \<and> db2 = db' \<and> u3 = user'"
    by (cases r) (auto simp: UpdateUser_def Let_def split: if_splits)
  from FindUserByIDWithRetry_Inr[OF f[unfolded res]]
  have fu: "find (\<lambda>r. ID r = uid) (users db) = Some user" and us: "users db1 = users db"
    and ck: "clock db1 = clock db" by simp_all
  from find_ID_Some[OF fu] have idu: "ID user = uid" and ex: "list_ex (\<lambda>r. ID r = uid) (users db)"
    by simp_all
  from UpdateUserWithRetry_result[OF s] ok
  have u': "user' = ?u2\<lparr>UpdatedAt := clock db1\<rparr>"
    and rows: "users db' =
               (if list_ex (\<lambda>r. ID r = ID ?u2) (users db1)
                then map (\<lambda>r. if ID r = ID ?u2 then user' else r) (users db1)
                else users db1 @ [user'])"
    by simp_all
  have id2: "ID ?u2 = uid" using idu by simp
  have rows': "users db' = map (\<lambda>r. if ID r = uid then user' else r) (users db)"
    using rows ex unfolding id2 us by simp
  have idu': "ID user' = uid" using u' idu by simp
  have "find (\<lambda>r. ID r = uid) (users db') = Some user'"
    unfolding rows' using fu idu' by (rule find_map_replace)
  then show ?thesis using fu u' ck rows' by auto
qed

lemma FindUserByIDWithRetry_found:
  "faults db = [] \<Longrightarrow> find (\<lambda>r. ID r = uid) (users db) = Some u \<Longrightarrow>
   FindUserByIDWithRetry uid db = (Inr u, db\<lparr>calls := Suc (calls db)\<rparr>)"
  by (simp add: FindUserByIDWithRetry_def ExecuteWithRetry_default find_user_fn_found)

lemma update_user_fn_ok:
  "faults db = [] \<Longrightarrow> list_ex (\<lambda>r. ID r = ID u) (users db) \<Longrightarrow>
   \<not> list_ex (\<lambda>r. Email r = Email u \<and> ID r \<noteq> ID u) (users db) \<Longrightarrow>
   update_user_fn (db, u) =
     (None, (db\<lparr>calls := Suc (calls db),
               users := map (\<lambda>r. if ID r = ID u then u\<lparr>UpdatedAt := clock db\<rparr> else r) (users db)\<rparr>,
             u\<lparr>UpdatedAt := clock db\<rparr>))"
  by (simp add: update_user_fn_def db_Save_def db_begin_nofault Let_def)

lemma UpdateUserWithRetry_ok:
  "faults db = [] \<Longrightarrow> list_ex (\<lambda>r. ID r = ID u) (users db) \<Longrightarrow>
   \<not> list_ex (\<lambda>r. Email r = Email u \<and> ID r \<noteq> ID u) (users db) \<Longrightarrow>
   UpdateUserWithRetry u db =
     (None, db\<lparr>calls := Suc (calls db),
               users := map (\<lambda>r. if ID r = ID u then u\<lparr>UpdatedAt := clock db\<rparr> else r) (users db)\<rparr>,
      u\<lparr>UpdatedAt := clock db\<rparr>)"
  by (simp add: UpdateUserWithRetry_def ExecuteWithRetry_default update_user_fn_ok)

lemma UpdateUser_reachable:
  assumes "faults db = []" and fu: "find (\<lambda>r. ID r = uid) (users db) = Some user"
    and free: "\<not> list_ex (\<lambda>r. Email r = (if email = [] then Email user else email) \<and> ID r \<noteq> uid)
                 (users db)"
  shows "UpdateUser uid name email db =
           (Inr (user\<lparr>Name := (if name = [] then Name user else name),
                      Email := (if email = [] then Email user else email),
                      UpdatedAt := clock db\<rparr>),
            db\<lparr>calls := calls db + 2,
               users := map (\<lambda>r. if ID r = uid
                                  then user\<lparr>Name := (if name = [] then Name user else name),
                                            Email := (if email = [] then Email user else email),
                                            UpdatedAt := clock db\<rparr>
                                  else r) (users db)\<rparr>)"
proof -
  let ?db1 = "db\<lparr>calls := Suc (calls db)\<rparr>"
  let ?u2 = "user\<lparr>Name := (if name = [] then Name user else name),
                   Email := (if email = [] then Email user else email)\<rparr>"
  from find_ID_Some[OF fu] have idu: "ID user = uid" and ex: "list_ex (\<lambda>r. ID r = uid) (users db)"
    by simp_all
  have f: "FindUserByIDWithRetry uid db = (Inr user, ?db1)"
    using assms(1) fu by (rule FindUserByIDWithRetry_found)
  have s: "UpdateUserWithRetry ?u2 ?db1 =
     (None, ?db1\<lparr>calls := Suc (calls ?db1),
               users := map (\<lambda>r. if ID r = ID ?u2 then ?u2\<lparr>UpdatedAt := clock ?db1\<rparr> else r) (users ?db1)\<rparr>,
      ?u2\<lparr>UpdatedAt := clock ?db1\<rparr>)"
    using assms(1) ex free idu by (intro UpdateUserWithRetry_ok) auto
  have u2: "(if email \<noteq> [] then (if name \<noteq> [] then user\<lparr>Name := name\<rparr> else user)\<lparr>Email := email\<rparr>
             else (if name \<noteq> [] then user\<lparr>Name := name\<rparr> else user)) = ?u2"
    by simp
  have s': "UpdateUserWithRetry ?u2 ?db1 =
     (None, db\<lparr>calls := calls db + 2,
               users := map (\<lambda>r. if ID r = uid then ?u2\<lparr>UpdatedAt := clock db\<rparr> else r) (users db)\<rparr>,
      ?u2\<lparr>UpdatedAt := clock db\<rparr>)"
    using s idu by simp
  show ?thesis
    unfolding UpdateUser_def f Let_def
    by (simp only: prod.case sum.case u2 s' option.case)
qed

lemma UpdateUser_ann:
  "UpdateUser 1 [] ''new@x.com'' ann_db =
     (Inr (ann\<lparr>Email := ''new@x.com''\<rparr>),
      ann_db\<lparr>calls := 3, users := [ann\<lparr>Email := ''new@x.com''\<rparr>]\<rparr>)"
  using UpdateUser_reachable[of ann_db 1 ann "''new@x.com''" "[]"]
  by (simp add: ann_db_def ann_def)


lemma Contains_duplicate_key:
  "Contains (Error (RetryError operation 3 (Some (DriverError duplicate_key_msg)))) ''duplicate key''"
proof -
  have a: "\<And>p s. Contains s ''duplicate key'' \<Longrightarrow> Contains (p @ s) ''duplicate key''"
  proof -
    fix p s show "Contains s ''duplicate key'' \<Longrightarrow> Contains (p @ s) ''duplicate key''"
      by (induction p) auto
  qed
  have "Contains duplicate_key_msg ''duplicate key''"
    by (simp add: duplicate_key_msg_def)
  then have "Contains ((''operation '' @ [CHR 0x27] @ operation @ [CHR 0x27] @ '' failed after '' @ itoa 3
       @ '' attempts: '') @ duplicate_key_msg) ''duplicate key''"
    by (rule a)
  then show ?thesis by simp
qed

lemma db_Create_taken:
  "list_ex (\<lambda>r. Email r = Email u) (users db) \<Longrightarrow> db_Create u db = (r, db', u') \<Longrightarrow>
     r \<noteq> None \<and> users db' = users db \<and> u' = u"
  by (auto simp: db_Create_def db_begin_def Let_def split: list.splits option.splits if_splits)

lemma create_user_fn_taken:
  assumes "list_ex (\<lambda>r. Email r = Email u) (users db)" "create_user_fn (db, u) = (r, (db', u'))"
  shows "r \<noteq> None \<and> users db' = users db \<and> u' = u"
proof -
  obtain r0 db0 u0 where f: "db_Create u db = (r0, db0, u0)"
    by (cases "db_Create u db") auto
  from assms(2) f have "r0 = r \<and> db0 = db' \<and> u0 = u'"
    by (auto simp: create_user_fn_def split: option.splits if_splits)
  with db_Create_taken[OF assms(1) f] show ?thesis by simp
qed

lemma CreateUserWithRetry_taken:
  assumes taken: "list_ex (\<lambda>r. Email r = Email u) (users db)"
    and res: "CreateUserWithRetry u db = (r, db', u')"
  shows "r \<noteq> None \<and> users db' = users db"
proof -
  let ?P = "\<lambda>s. users (fst s) = users db \<and> snd s = u"
  let ?Q = "\<lambda>s::DB \<times> User. False"
  obtain n slept where e:
    "ExecuteWithRetry ''create_user'' create_user_fn DefaultRetryConfig (db, u) = (r, (db', u'), n, slept)"
    using res by (auto simp: CreateUserWithRetry_def split: prod.splits)
  have "case r of None \<Rightarrow> ?Q (db', u') | Some e \<Rightarrow> ?P (db', u')"
  proof (rule ExecuteWithRetry_rule[where P = ?P and Q = ?Q, OF _ _ _ e])
    fix s :: "DB \<times> User" and e s' assume a: "?P s" "create_user_fn s = (Some e, s')"
    obtain d0 u0 d1 u1 where "s = (d0, u0)" "s' = (d1, u1)" by (cases s, cases s')
    then show "?P s'"
      using a taken create_user_fn_taken[of u0 d0 "Some e" d1 u1] by simp
  next
    fix s :: "DB \<times> User" and s' assume a: "?P s" "create_user_fn s = (None, s')"
    obtain d0 u0 d1 u1 where "s = (d0, u0)" "s' = (d1, u1)" by (cases s, cases s')
    then show "?Q s'"
      using a taken create_user_fn_taken[of u0 d0 None d1 u1] by simp
  next
    show "?P (db, u)" by simp
  qed
  then show ?thesis by (cases r) auto
qed

lemma CreateUser_taken:
  assumes "list_ex (\<lambda>r. Email r = email) (users db)"
  shows "(\<exists>e. fst (CreateUser lib name email password db) = Inl e) \<and>
         users (snd (CreateUser lib name email password db)) = users db"
proof (cases "GenerateFromPassword lib password")
  case (Inl e)
  then show ?thesis by (simp add: CreateUser_def)
next
  case (Inr h)
  let ?u = "zero_User\<lparr>Name := name, Email := email, Password := h\<rparr>"
  obtain r db' u' where c: "CreateUserWithRetry ?u db = (r, db', u')"
    by (cases "CreateUserWithRetry ?u db") auto
  have "list_ex (\<lambda>r. Email r = Email ?u) (users db)" using assms by simp
  from CreateUserWithRetry_taken[OF this c] obtain e where "r = Some e" "users db' = users db"
    by auto
  then show ?thesis using Inr c by (simp add: CreateUser_def)
qed

lemma create_user_fn_duplicate:
  "faults db = [] \<Longrightarrow> list_ex (\<lambda>r. Email r = Email u) (users db) \<Longrightarrow>
   create_user_fn (db, u) =
     (Some (DriverError duplicate_key_msg),
      (db\<lparr>calls := Suc (calls db), next_id := Suc (next_id db)\<rparr>, u))"
  by (simp add: create_user_fn_def db_Create_def db_begin_nofault)

lemma CreateUser_duplicate_reachable:
  assumes "faults db = []" "list_ex (\<lambda>r. Email r = email) (users db)"
    "GenerateFromPassword lib password = Inr h"
  shows "CreateUser lib name email password db =
           (Inl (RetryError ''create_user'' 3 (Some (DriverError duplicate_key_msg))),
            db\<lparr>calls := calls db + 3, next_id := next_id db + 3\<rparr>)"
  using assms
  by (simp add: CreateUser_def CreateUserWithRetry_def ExecuteWithRetry_default
      create_user_fn_duplicate)

lemma create_user_fn_ok:
  "faults db = [] \<Longrightarrow> \<not> list_ex (\<lambda>r. Email r = Email u) (users db) \<Longrightarrow>
   create_user_fn (db, u) =
     (None,
      (db\<lparr>calls := Suc (calls db),
          users := users db @ [u\<lparr>ID := next_id db, CreatedAt := clock db, UpdatedAt := clock db\<rparr>],
          next_id := Suc (next_id db)\<rparr>,
       u\<lparr>ID := next_id db, CreatedAt := clock db, UpdatedAt := clock db\<rparr>))"
  by (simp add: create_user_fn_def db_Create_def db_begin_nofault Let_def)

lemma CreateUser_reachable:
  assumes "faults db = []" "\<not> list_ex (\<lambda>r. Email r = email) (users db)"
    "GenerateFromPassword lib password = Inr h"
  shows "CreateUser lib name email password db =
           (Inr \<lparr>ID = next_id db, Name = name, Email = email, Password = h,
                 CreatedAt = clock db, UpdatedAt = clock db\<rparr>,
            db\<lparr>calls := Suc (calls db),
               users := users db @ [\<lparr>ID = next_id db, Name = name, Email = email, Password = h,
                                     CreatedAt = clock db, UpdatedAt = clock db\<rparr>],
               next_id := Suc (next_id db)\<rparr>)"
  using assms
  by (simp add: CreateUser_def CreateUserWithRetry_def ExecuteWithRetry_default
      create_user_fn_ok zero_User_def)

lemma CreateUser_ann:
  "CreateUser example_lib ''Ann'' ''ann@x.com'' ''secret1'' example_db = (Inr ann, ann_db)"
  using CreateUser_reachable[of example_db "''ann@x.com''" example_lib "''secret1''" "''$2a$secret1''" "''Ann''"]
  by (simp add: example_lib_def example_db_def ann_def ann_db_def)

section \<open>The adapters: lemmas\<close>

declare RuneCountInString.simps [simp del]

lemma RuneCountInString_le: "RuneCountInString s \<le> length s"
proof (induction s rule: RuneCountInString.induct)
  case 1
  show ?case by (simp add: RuneCountInString.simps)
next
  case (2 c s)
  have "length (drop (rune_size c s - 1) s) \<le> length s" by simp
  with 2 show ?case by (simp add: RuneCountInString.simps)
qed

lemma RuneCountInString_examples:
  "RuneCountInString ''secret2'' = 7" "RuneCountInString ''abc'' = 3"
  by (simp_all add: RuneCountInString.simps rune_size_def)

lemma Signup_counts_runes:
  "RuneCountInString [CHR 0xC3, CHR 0xA9, CHR 0xC3, CHR 0xA9, CHR 0xC3, CHR 0xA9] = 3"
  "Signup example_lib ''Bob'' ''bob@x.com'' [CHR 0xC3, CHR 0xA9, CHR 0xC3, CHR 0xA9, CHR 0xC3, CHR 0xA9]
      example_db = ((StatusBadRequest, H_binding_error), example_db)"
  by (simp_all add: Signup_def bind_SignupRequest_def RuneCountInString.simps rune_size_def Let_def)

lemma FindUserByEmailWithRetry_Inr:
  assumes "FindUserByEmailWithRetry email db = (Inr u, db1)"
  shows "find (\<lambda>r. Email r = email) (users db) = Some u"
proof -
  obtain r db' u' n slept where e:
    "ExecuteWithRetry ''find_user_by_email'' (find_user_fn (\<lambda>r. Email r = email))
        DefaultRetryConfig (db, zero_User) = (r, (db', u'), n, slept)"
    by (metis surj_pair)
  with assms have "r = None \<and> u' = u \<and> db' = db1"
    by (auto simp: FindUserByEmailWithRetry_def split: option.splits)
  with find_retry_result[OF e] show ?thesis by simp
qed

lemma Login_no_account:
  assumes "bind_LoginRequest (is_email lib) email password"
    and "find (\<lambda>r. Email r = email) (users db) = None"
  shows "fst (Login lib email password db) = (StatusUnauthorized, H_error ''Invalid credentials'')"
proof -
  obtain res db' where g: "GetUserByEmail email db = (res, db')"
    by (cases "GetUserByEmail email db") auto
  have "\<exists>e. res = Inl e"
  proof (cases res)
    case (Inr u)
    with g have "FindUserByEmailWithRetry email db = (Inr u, db')" by (simp add: GetUserByEmail_def)
    from FindUserByEmailWithRetry_Inr[OF this] assms(2) show ?thesis by simp
  qed simp
  then show ?thesis using assms(1) g by (auto simp: Login_def)
qed

lemma Login_wrong_password:
  assumes "bind_LoginRequest (is_email lib) email password"
    and "find (\<lambda>r. Email r = email) (users db) = Some user"
    and "CompareHashAndPassword lib (Password user) password = Some err"
  shows "fst (Login lib email password db) = (StatusUnauthorized, H_error ''Invalid credentials'')"
proof -
  obtain res db' where g: "GetUserByEmail email db = (res, db')"
    by (cases "GetUserByEmail email db") auto
  show ?thesis
  proof (cases res)
    case (Inl e)
    then show ?thesis using assms(1) g by (simp add: Login_def)
  next
    case (Inr u)
    with g have "FindUserByEmailWithRetry email db = (Inr u, db')" by (simp add: GetUserByEmail_def)
    from FindUserByEmailWithRetry_Inr[OF this] assms(2) have "u = user" by simp
    then show ?thesis using assms(1,3) g Inr by (simp add: Login_def ValidatePassword_def)
  qed
qed

lemmas status_defs = StatusOK_def StatusCreated_def StatusBadRequest_def StatusUnauthorized_def
  StatusNotFound_def StatusConflict_def StatusInternalServerError_def

lemma uint_of_int_nat: "uid < 2 ^ 32 \<Longrightarrow> uint_of_int (int uid) = uid"
proof -
  assume "uid < 2 ^ 32"
  then have "int uid < 2 ^ 64" by simp
  then have "int uid mod 2 ^ 64 = int uid" by simp
  then show ?thesis by (simp add: uint_of_int_def)
qed

lemma proto_json: "userToProtoUser (json_User user) = userToProtoUser user"
  by (simp add: userToProtoUser_def json_User_def)

lemma proto_json_map: "map (userToProtoUser \<circ> json_User) us = map userToProtoUser us"
  by (simp add: proto_json)

lemma UpdateUser_adapters:
  "http_outcome (fst (api_UpdateUser (Some i) name email db))
     = grpc_outcome (fst (grpc_UpdateUser (uint_of_int i) name email db)) \<and>
   snd (api_UpdateUser (Some i) name email db) = snd (grpc_UpdateUser (uint_of_int i) name email db)"
  by (cases "UpdateUser (uint_of_int i) name email db"; cases "fst (UpdateUser (uint_of_int i) name email db)")
     (auto simp: api_UpdateUser_def grpc_UpdateUser_def http_outcome_def status_defs proto_json)

lemma GetUser_adapters:
  "http_outcome (fst (api_GetUser (Some i) db)) = grpc_outcome (fst (grpc_GetUser (uint_of_int i) db)) \<and>
   snd (api_GetUser (Some i) db) = snd (grpc_GetUser (uint_of_int i) db)"
  by (cases "GetUser (uint_of_int i) db"; cases "fst (GetUser (uint_of_int i) db)")
     (auto simp: api_GetUser_def grpc_GetUser_def http_outcome_def status_defs proto_json)

lemma DeleteUser_adapters:
  "http_outcome (fst (api_DeleteUser (Some i) db)) = grpc_outcome (fst (grpc_DeleteUser (uint_of_int i) db)) \<and>
   snd (api_DeleteUser (Some i) db) = snd (grpc_DeleteUser (uint_of_int i) db)"
  by (cases "DeleteUser (uint_of_int i) db"; cases "fst (DeleteUser (uint_of_int i) db)")
     (auto simp: api_DeleteUser_def grpc_DeleteUser_def http_outcome_def status_defs)

lemma ListUsers_adapters:
  "http_outcome (fst (api_GetUsers db)) = grpc_outcome (fst (grpc_ListUsers db)) \<and>
   snd (api_GetUsers db) = snd (grpc_ListUsers db)"
  by (cases "ListUsers db"; cases "fst (ListUsers db)")
     (auto simp: api_GetUsers_def grpc_ListUsers_def http_outcome_def status_defs proto_json)

lemma CreateUser_adapters:
  assumes "bind_SignupRequest (is_email lib) name email password"
    and "\<forall>i. \<exists>token. SignedString lib i = Inr token"
  shows "http_outcome (fst (Signup lib name email password db))
           = grpc_outcome (fst (grpc_CreateUser lib name email password db)) \<and>
         snd (Signup lib name email password db) = snd (grpc_CreateUser lib name email password db)"
proof -
  have ne: "name \<noteq> []" "email \<noteq> []" "password \<noteq> []"
    using assms(1) by (auto simp: bind_SignupRequest_def)
  obtain res db' where c: "CreateUser lib name email password db = (res, db')"
    by (cases "CreateUser lib name email password db") auto
  show ?thesis
  proof (cases res)
    case (Inl e)
    then show ?thesis using assms(1) ne c
      by (simp add: Signup_def grpc_CreateUser_def http_outcome_def status_defs)
  next
    case (Inr user)
    from assms(2) obtain token where "SignedString lib (ID user) = Inr token" by blast
    then show ?thesis using assms(1) ne c Inr
      by (simp add: Signup_def grpc_CreateUser_def http_outcome_def status_defs generateJWT_def proto_json)
  qed
qed

lemma find_user_fn_fault:
  "faults db = Some msg # fs \<Longrightarrow>
   find_user_fn cond (db, u) = (Some (DriverError msg), (db\<lparr>faults := fs, calls := Suc (calls db)\<rparr>, u))"
  by (simp add: find_user_fn_def db_First_def db_begin_def)

lemma GetUser_unreachable:
  "GetUser 1 unreachable_db =
     (Inl (RetryError ''find_user_by_id'' 3 (Some (DriverError ''connection refused''))),
      ann_db\<lparr>calls := 4\<rparr>)"
  by (simp add: GetUser_def FindUserByIDWithRetry_def ExecuteWithRetry_default find_user_fn_fault
      unreachable_db_def ann_db_def)

lemma update_user_fn_duplicate:
  "faults db = [] \<Longrightarrow> list_ex (\<lambda>r. Email r = Email u \<and> ID r \<noteq> ID u) (users db) \<Longrightarrow>
   update_user_fn (db, u) = (Some (DriverError duplicate_key_msg), (db\<lparr>calls := Suc (calls db)\<rparr>, u))"
  by (simp add: update_user_fn_def db_Save_def db_begin_nofault)

lemma UpdateUser_bob_duplicate:
  "UpdateUser 2 [] ''ann@x.com'' ann_bob_db =
     (Inl (RetryError ''update_user'' 3 (Some (DriverError duplicate_key_msg))),
      ann_bob_db\<lparr>calls := 6\<rparr>)"
proof -
  have f: "FindUserByIDWithRetry 2 ann_bob_db = (Inr bob, ann_bob_db\<lparr>calls := 3\<rparr>)"
    using FindUserByIDWithRetry_found[of ann_bob_db 2 bob]
    by (simp add: ann_bob_db_def ann_def bob_def)
  have s: "UpdateUserWithRetry (bob\<lparr>Email := ''ann@x.com''\<rparr>) (ann_bob_db\<lparr>calls := 3\<rparr>) =
     (Some (RetryError ''update_user'' 3 (Some (DriverError duplicate_key_msg))),
      ann_bob_db\<lparr>calls := 6\<rparr>, bob\<lparr>Email := ''ann@x.com''\<rparr>)"
    by (simp add: UpdateUserWithRetry_def ExecuteWithRetry_default update_user_fn_duplicate
        ann_bob_db_def ann_def bob_def)
  show ?thesis
    unfolding UpdateUser_def f by (simp add: Let_def s)
qed

lemma FindUserByEmailWithRetry_found:
  "faults db = [] \<Longrightarrow> find (\<lambda>r. Email r = email) (users db) = Some u \<Longrightarrow>
   FindUserByEmailWithRetry email db = (Inr u, db\<lparr>calls := Suc (calls db)\<rparr>)"
  by (simp add: FindUserByEmailWithRetry_def ExecuteWithRetry_default find_user_fn_found)

lemma db_Delete_fault:
  "faults db = Some msg # fs \<Longrightarrow>
   db_Delete uid db = (Some (DriverError msg), db\<lparr>faults := fs, calls := Suc (calls db)\<rparr>)"
  by (simp add: db_Delete_def db_begin_def)

lemma DeleteUser_unreachable:
  "DeleteUser 1 unreachable_db =
     (Some (RetryError ''delete_user'' 3 (Some (DriverError ''connection refused''))),
      ann_db\<lparr>calls := 4\<rparr>)"
  by (simp add: DeleteUser_def DeleteUserWithRetry_def ExecuteWithRetry_default db_Delete_fault
      unreachable_db_def ann_db_def)

lemma db_Find_fault:
  "faults db = Some msg # fs \<Longrightarrow>
   db_Find us db = (Some (DriverError msg), db\<lparr>faults := fs, calls := Suc (calls db)\<rparr>, us)"
  by (simp add: db_Find_def db_begin_def)

lemma ListUsers_unreachable:
  "ListUsers unreachable_db =
     (Inl (RetryError ''get_all_users'' 3 (Some (DriverError ''connection refused''))),
      ann_db\<lparr>calls := 4\<rparr>)"
  by (simp add: ListUsers_def GetAllUsersWithRetry_def ExecuteWithRetry_default db_Find_fault
      unreachable_db_def ann_db_def)

lemma CreateUser_bob_short:
  "CreateUser example_lib ''Bob'' ''bob@x.com'' ''abc'' example_db =
     (Inr \<lparr>ID = 1, Name = ''Bob'', Email = ''bob@x.com'', Password = ''$2a$abc'',
           CreatedAt = 1700000000, UpdatedAt = 1700000000\<rparr>,
      \<lparr>users = [\<lparr>ID = 1, Name = ''Bob'', Email = ''bob@x.com'', Password = ''$2a$abc'',
                  CreatedAt = 1700000000, UpdatedAt = 1700000000\<rparr>],
        next_id = 2, clock = 1700000000, faults = [], calls = 1\<rparr>)"
  using CreateUser_reachable[of example_db "''bob@x.com''" example_lib "''abc''" "''$2a$abc''" "''Bob''"]
  by (simp add: example_lib_def example_db_def)

lemma itoa_3: "itoa 3 = ''3''"
  by (simp add: itoa_def itoa_nat.simps)

lemma CreateUser_flaky:
  "CreateUser example_lib ''Ann2'' ''ann@x.com'' ''secret2'' flaky_db =
     (Inl (RetryError ''create_user'' 3 (Some (DriverError ''connection refused''))),
      ann_db\<lparr>next_id := 4, calls := 4\<rparr>)"
  by (simp add: CreateUser_def CreateUserWithRetry_def ExecuteWithRetry_default create_user_fn_def
      db_Create_def db_begin_def example_lib_def flaky_db_def ann_db_def ann_def zero_User_def)

lemma connection_error_text:
  "\<not> Contains (Error (RetryError ''create_user'' 3 (Some (DriverError ''connection refused''))))
       ''duplicate key''"
  by (simp add: itoa_3)

section \<open>Claims about the retry executor\<close>

text \<open>
  Claim C1: if the first failure is Terminal (record not found, unique constraint
  violated), the executor returns it at once and the operation is invoked exactly once;
  \<open>GetUser\<close> on an identifier that does not exist returns NotFound after exactly one
  persistence attempt.

  The code does otherwise. The closures of package database test for these errors
  (``Don't retry on not found errors'') and then return the error to \<open>ExecuteWithRetry\<close>,
  whose loop has no test of its own and carries on. On a reachable store without a row of
  the identifier, \<open>GetUser\<close> makes three physical calls, and the error it returns is the
  wrapped ``failed after 3 attempts'' error around \<open>ErrRecordNotFound\<close>.
\<close>

theorem GetUser_missing_makes_three_attempts:
  assumes "faults db = []" and "find (\<lambda>r. ID r = uid) (users db) = None"
  shows "GetUser uid db =
           (Inl (RetryError ''find_user_by_id'' 3 (Some ErrRecordNotFound)),
            db\<lparr>calls := calls db + 3\<rparr>)"
  using assms by (rule GetUser_missing)

theorem GetUser_missing_makes_three_attempts_witness:
  "faults example_db = [] \<and> find (\<lambda>r. ID r = 42) (users example_db) = None \<and>
   GetUser 42 example_db =
     (Inl (RetryError ''find_user_by_id'' 3 (Some ErrRecordNotFound)),
      \<lparr>users = [], next_id = 1, clock = 1700000000, faults = [], calls = 3\<rparr>)"
proof -
  have f: "faults example_db = []" by (simp add: example_db_def)
  have m: "find (\<lambda>r. ID r = 42) (users example_db) = None" by (simp add: example_db_def)
  show ?thesis
    using f m GetUser_missing_makes_three_attempts [OF f m] by (simp add: example_db_def)
qed

text \<open>
  Claim C2, as amended: the delay slept before retry attempt \<open>k \<ge> 2\<close> is
  \<open>calculateDelay (k - 1)\<close>, and it equals \<open>min (baseDelay * 2^(k-2)) maxDelay\<close> whenever
  \<open>0 < baseDelay < 2^53\<close> and the product fits in \<open>int64\<close>. With the default policy the
  delays before attempts 2 to 6 are 100ms, 200ms, 400ms, 800ms and 1.6s, and the delay is
  the cap of 2s from attempt 7 on (up to attempt 38, where the product still fits). When
  every attempt fails, the delays slept are those after attempts \<open>1\<close> to
  \<open>MaxAttempts - 1\<close>, in order.
\<close>

theorem backoff_schedule:
  "(2 \<le> k \<and> 0 < baseDelay \<and> baseDelay < 2 ^ 53 \<and> baseDelay * 2 ^ (k - 2) < 2 ^ 63 \<longrightarrow>
      calculateDelay (int k - 1) baseDelay maxDelay
        = Some (min (baseDelay * 2 ^ (k - 2)) maxDelay)) \<and>
   map (\<lambda>k. calculateDelay (k - 1) (BaseDelay DefaultRetryConfig) (MaxDelay DefaultRetryConfig))
       [2, 3, 4, 5, 6]
     = map Some [100 * Millisecond, 200 * Millisecond, 400 * Millisecond, 800 * Millisecond,
                 1600 * Millisecond] \<and>
   (7 \<le> k \<and> k \<le> 38 \<longrightarrow>
      calculateDelay (int k - 1) (BaseDelay DefaultRetryConfig) (MaxDelay DefaultRetryConfig)
        = Some (2 * Second)) \<and>
   (1 \<le> MaxAttempts config \<and> (\<forall>s. fst (fn s) \<noteq> None) \<longrightarrow>
      snd (snd (snd (ExecuteWithRetry operation fn config s))) =
        map (\<lambda>a. calculateDelay a (BaseDelay config) (MaxDelay config))
            [1..MaxAttempts config - 1])"
  using calculateDelay_doubling[of k baseDelay maxDelay] default_schedule
    default_capped[of k] slept_all_fail[of config fn operation s]
  by blast

text \<open>
  Claim C2 as written has the cap of 2s reached by attempt 6. The delay before attempt 6
  is \<open>100ms * 2^4 = 1.6s\<close>, below the cap.
\<close>

theorem delay_before_attempt_6:
  "calculateDelay (6 - 1) (BaseDelay DefaultRetryConfig) (MaxDelay DefaultRetryConfig)
     = Some (1600 * Millisecond) \<and>
   calculateDelay (6 - 1) (BaseDelay DefaultRetryConfig) (MaxDelay DefaultRetryConfig)
     \<noteq> Some (2 * Second)"
  by (simp add: calculateDelay_def DefaultRetryConfig_def Millisecond_def Second_def
        float64_of_int_def float_product_to_int64_def wrap64_def drop_bits_small Let_def)

theorem backoff_schedule_witness:
  "(2 \<le> (4::nat) \<and> (0::int) < 100 * Millisecond \<and> 100 * Millisecond < 2 ^ 53 \<and>
      100 * Millisecond * 2 ^ (4 - 2) < 2 ^ 63) \<and>
   calculateDelay 3 (100 * Millisecond) (2 * Second) = Some (400 * Millisecond) \<and>
   calculateDelay 9 (BaseDelay DefaultRetryConfig) (MaxDelay DefaultRetryConfig) = Some (2 * Second) \<and>
   1 \<le> MaxAttempts DefaultRetryConfig \<and> (\<forall>s. fst (failing_fn s) \<noteq> None) \<and>
   snd (snd (snd (ExecuteWithRetry ''ping'' failing_fn DefaultRetryConfig 0))) =
     [Some (100 * Millisecond), Some (200 * Millisecond)]"
  using backoff_schedule [of 4 "100 * Millisecond" "2 * Second" DefaultRetryConfig failing_fn "''ping''" 0]
    backoff_schedule [of 10 1 1 DefaultRetryConfig failing_fn "''ping''" 0]
  by (simp add: failing_fn_def DefaultRetryConfig_def Millisecond_def Second_def upto.simps
        calculateDelay_def float64_of_int_def float_product_to_int64_def wrap64_def
        drop_bits_small Let_def)

text \<open>
  Claim C3: if every invocation of the operation returns a Retryable error, the executor
  invokes it exactly \<open>MaxAttempts\<close> times and returns an error that wraps the last failure
  with the operation name and the attempt count, which its text shows.

  The executor does not look at the kind of the error, so the hypothesis is that each of
  the \<open>MaxAttempts\<close> invocations of the run from \<open>s\<close> fails (\<open>MaxAttempts \<ge> 1\<close> is the
  policy's own condition). Then the state returned is the state that \<open>MaxAttempts\<close>
  invocations of \<open>fn\<close> in a row leave, the error wrapped is the error of the last of
  them, and the text of the result names the operation and the count.
\<close>

theorem ExecuteWithRetry_exhausted:
  assumes "1 \<le> MaxAttempts config"
    and "\<forall>k < nat (MaxAttempts config). fst (fn (invocations fn k s)) \<noteq> None"
  shows "ExecuteWithRetry operation fn config s =
           (Some (RetryError operation (MaxAttempts config)
                    (fst (fn (invocations fn (nat (MaxAttempts config) - 1) s)))),
            invocations fn (nat (MaxAttempts config)) s,
            nat (MaxAttempts config),
            map (\<lambda>a. calculateDelay a (BaseDelay config) (MaxDelay config))
                [1..MaxAttempts config - 1]) \<and>
         (\<exists>e. fst (fn (invocations fn (nat (MaxAttempts config) - 1) s)) = Some e \<and>
              Error (RetryError operation (MaxAttempts config) (Some e)) =
                ''operation '' @ [CHR 0x27] @ operation @ [CHR 0x27] @ '' failed after ''
                  @ itoa (MaxAttempts config) @ '' attempts: '' @ Error e)"
proof -
  have a: "nat (MaxAttempts config - 1 + 1) = nat (MaxAttempts config)" by simp
  have b: "nat (MaxAttempts config - 1) = nat (MaxAttempts config) - 1" by simp
  have "nat (MaxAttempts config) - 1 < nat (MaxAttempts config)" using assms(1) by simp
  with assms(2) obtain e where e: "fst (fn (invocations fn (nat (MaxAttempts config) - 1) s)) = Some e"
    by blast
  have "retry_loop operation fn config 1 None s 0 [] =
     (Some (RetryError operation (MaxAttempts config)
              (fst (fn (invocations fn (nat (MaxAttempts config - 1)) s)))),
      invocations fn (nat (MaxAttempts config - 1 + 1)) s,
      0 + nat (MaxAttempts config - 1 + 1),
      [] @ map (\<lambda>a. calculateDelay a (BaseDelay config) (MaxDelay config))
                  [1..MaxAttempts config - 1])"
    using assms by (intro retry_loop_failures) (simp_all add: a)
  then show ?thesis
    using e unfolding ExecuteWithRetry_def a b by simp
qed

theorem ExecuteWithRetry_exhausted_witness:
  "1 \<le> MaxAttempts DefaultRetryConfig \<and>
   invocations (find_user_fn (\<lambda>r. ID r = 42)) 3 (example_db, zero_User)
     = (example_db\<lparr>calls := 3\<rparr>, zero_User) \<and>
   ExecuteWithRetry ''find_user_by_id'' (find_user_fn (\<lambda>r. ID r = 42)) DefaultRetryConfig
       (example_db, zero_User) =
     (Some (RetryError ''find_user_by_id'' 3 (Some ErrRecordNotFound)),
      (example_db\<lparr>calls := 3\<rparr>, zero_User), 3,
      [Some (100 * Millisecond), Some (200 * Millisecond)])"
proof -
  let ?fn = "find_user_fn (\<lambda>r. ID r = 42)"
  let ?s = "(example_db, zero_User)"
  have m: "1 \<le> MaxAttempts DefaultRetryConfig" "nat (MaxAttempts DefaultRetryConfig) = 3"
    by (simp_all add: DefaultRetryConfig_def)
  have step: "\<And>c. ?fn (example_db\<lparr>calls := c\<rparr>, zero_User)
                 = (Some ErrRecordNotFound, (example_db\<lparr>calls := Suc c\<rparr>, zero_User))"
    using find_user_fn_missing[of "example_db\<lparr>calls := c\<rparr>" "\<lambda>r. ID r = 42" zero_User for c]
    by (simp add: example_db_def)
  have s0: "?s = (example_db\<lparr>calls := 0\<rparr>, zero_User)" by (simp add: example_db_def)
  have inv: "invocations ?fn k ?s = (example_db\<lparr>calls := k\<rparr>, zero_User)" for k
  proof (induction k)
    case 0
    show ?case using s0 by simp
  next
    case (Suc k)
    show ?case unfolding invocations_Suc Suc step by simp
  qed
  have f: "\<forall>k < nat (MaxAttempts DefaultRetryConfig). fst (?fn (invocations ?fn k ?s)) \<noteq> None"
    unfolding inv step by simp
  have i: "invocations ?fn 3 ?s = (example_db\<lparr>calls := 3\<rparr>, zero_User)" by (rule inv)
  have d: "map (\<lambda>a. calculateDelay a (BaseDelay DefaultRetryConfig) (MaxDelay DefaultRetryConfig))
             [1..MaxAttempts DefaultRetryConfig - 1]
           = [Some (100 * Millisecond), Some (200 * Millisecond)]"
    using delays_default by (simp add: DefaultRetryConfig_def upto.simps)
  have l: "fst (?fn (invocations ?fn (nat (MaxAttempts DefaultRetryConfig) - 1) ?s)) = Some ErrRecordNotFound"
    unfolding inv step by simp
  show ?thesis
    using ExecuteWithRetry_exhausted [OF m(1) f, of "''find_user_by_id''"] m i d l
    by (simp add: DefaultRetryConfig_def)
qed

section \<open>Claims about the service\<close>

text \<open>
  Claim C4: \<open>UpdateUser(id, name, email)\<close> is a partial update: for every existing user an
  argument given as the empty string leaves that stored field as it was, and a non-empty
  argument overwrites it; \<open>UpdateUser(id, "", "new@x.com")\<close> changes the email and keeps
  the name.

  Whatever the environment does, a call that succeeds returns the loaded user with
  exactly these two fields set as the claim says (and the timestamp \<open>UpdatedAt\<close>, which is
  the store's), that user is the row the store then holds for the identifier, and every
  other row is as it was. On a reachable store, the call succeeds for every existing user
  whose new email no other row holds.
\<close>

theorem UpdateUser_partial_update:
  "(UpdateUser uid name email db = (Inr user', db') \<longrightarrow>
      (\<exists>user. find (\<lambda>r. ID r = uid) (users db) = Some user \<and>
         user' = user\<lparr>Name := (if name = [] then Name user else name),
                      Email := (if email = [] then Email user else email),
                      UpdatedAt := clock db\<rparr> \<and>
         find (\<lambda>r. ID r = uid) (users db') = Some user' \<and>
         users db' = map (\<lambda>r. if ID r = uid then user' else r) (users db))) \<and>
   (faults db = [] \<and> find (\<lambda>r. ID r = uid) (users db) = Some user0 \<and>
    \<not> list_ex (\<lambda>r. Email r = (if email = [] then Email user0 else email) \<and> ID r \<noteq> uid) (users db)
      \<longrightarrow> (\<exists>user' db'. UpdateUser uid name email db = (Inr user', db')))"
  using UpdateUser_Inr[of uid name email db user' db']
    UpdateUser_reachable[of db uid user0 email name]
  by blast

theorem UpdateUser_partial_update_witness:
  "UpdateUser 1 [] ''new@x.com'' ann_db =
     (Inr (ann\<lparr>Email := ''new@x.com''\<rparr>),
      ann_db\<lparr>calls := 3, users := [ann\<lparr>Email := ''new@x.com''\<rparr>]\<rparr>) \<and>
   (\<exists>user. find (\<lambda>r. ID r = 1) (users ann_db) = Some user \<and>
      ann\<lparr>Email := ''new@x.com''\<rparr> =
        user\<lparr>Name := Name user, Email := ''new@x.com'', UpdatedAt := clock ann_db\<rparr> \<and>
      Name (ann\<lparr>Email := ''new@x.com''\<rparr>) = ''Ann'')"
  using UpdateUser_ann
    UpdateUser_partial_update [of 1 "[]" "''new@x.com''" ann_db "ann\<lparr>Email := ''new@x.com''\<rparr>"
      "ann_db\<lparr>calls := 3, users := [ann\<lparr>Email := ''new@x.com''\<rparr>]\<rparr>" ann]
  by (simp add: ann_db_def ann_def)

text \<open>
  Claim C5: \<open>CreateUser\<close> with an email that the store already holds fails with the
  AlreadyExists outcome, and the stored user is left as it was: after
  \<open>createUser("Ann", "ann@x.com", ...)\<close>, a second \<open>createUser("Ann2", "ann@x.com", ...)\<close>
  returns AlreadyExists and the first user's name is still \<open>Ann\<close>.

  The table is indeed left as it was (\<open>CreateUser_taken\<close>), and on a store that every call
  reaches the error carries the text \<open>duplicate key\<close> that both adapters read as
  AlreadyExists (\<open>CreateUser_duplicate_reachable\<close>). But the duplicate is not returned when
  the store reports it: the closure logs ``not retrying'' and returns the error into the
  loop of \<open>ExecuteWithRetry\<close>, which tries again. When the store answers the first two
  attempts with the unique violation and the third attempt does not reach it, the error
  returned wraps the connection failure, and the adapters answer with the internal
  failure instead of AlreadyExists.
\<close>

theorem CreateUser_duplicate_lost_to_fault:
  "list_ex (\<lambda>r. Email r = ''ann@x.com'') (users flaky_db) \<and>
   faults flaky_db = [None, None, Some ''connection refused''] \<and>
   CreateUser example_lib ''Ann2'' ''ann@x.com'' ''secret2'' flaky_db =
     (Inl (RetryError ''create_user'' 3 (Some (DriverError ''connection refused''))),
      ann_db\<lparr>next_id := 4, calls := 4\<rparr>) \<and>
   \<not> Contains (Error (RetryError ''create_user'' 3 (Some (DriverError ''connection refused''))))
       ''duplicate key'' \<and>
   fst (grpc_CreateUser example_lib ''Ann2'' ''ann@x.com'' ''secret2'' flaky_db)
     = Inl (Internal, ''failed to create user'') \<and>
   fst (Signup example_lib ''Ann2'' ''ann@x.com'' ''secret2'' flaky_db)
     = (500, H_error ''Failed to create user'')"
proof -
  have t: "list_ex (\<lambda>r. Email r = ''ann@x.com'') (users flaky_db)"
    "faults flaky_db = [None, None, Some ''connection refused'']"
    by (simp_all add: flaky_db_def ann_db_def ann_def)
  have b: "bind_SignupRequest (is_email example_lib) ''Ann2'' ''ann@x.com'' ''secret2''"
    by (simp add: bind_SignupRequest_def example_lib_def RuneCountInString_examples)
  have g: "fst (grpc_CreateUser example_lib ''Ann2'' ''ann@x.com'' ''secret2'' flaky_db)
     = Inl (Internal, ''failed to create user'')"
    unfolding grpc_CreateUser_def CreateUser_flaky using connection_error_text by simp
  have h: "fst (Signup example_lib ''Ann2'' ''ann@x.com'' ''secret2'' flaky_db)
     = (500, H_error ''Failed to create user'')"
    unfolding Signup_def CreateUser_flaky using connection_error_text b
    by (simp add: StatusInternalServerError_def)
  show ?thesis
    using t CreateUser_flaky connection_error_text g h by blast
qed



section \<open>Claims about the adapters\<close>

text \<open>
  Claim C6, as amended: the adapters map errors operation by operation, not by one table
  of domain errors. Creation (RPC \<open>CreateUser\<close>, REST signup) maps an error whose text
  contains \<open>duplicate key\<close> to conflict (\<open>AlreadyExists\<close>, 409) and every other error of the
  service to the internal failure (\<open>Internal\<close>, 500); update maps an error with that text
  to conflict; the two get-by-identifier handlers map every error of the lookup to
  not-found (\<open>NotFound\<close>, 404); the REST login maps a failed lookup and a password mismatch
  alike to 401 (the RPC adapter has no credential operation); deletion and listing map
  every error to the internal failure.
\<close>

theorem adapter_error_codes:
  "(name \<noteq> [] \<and> email \<noteq> [] \<and> password \<noteq> [] \<and>
    fst (CreateUser lib name email password db) = Inl e \<longrightarrow>
      fst (grpc_CreateUser lib name email password db) =
        Inl (if Contains (Error e) ''duplicate key'' then (AlreadyExists, ''email already exists'')
             else (Internal, ''failed to create user''))) \<and>
   (bind_SignupRequest (is_email lib) name email password \<and>
    fst (CreateUser lib name email password db) = Inl e \<longrightarrow>
      fst (Signup lib name email password db) =
        (if Contains (Error e) ''duplicate key''
         then (StatusConflict, H_error ''Email already exists'')
         else (StatusInternalServerError, H_error ''Failed to create user''))) \<and>
   (fst (UpdateUser uid name email db) = Inl e \<and> Contains (Error e) ''duplicate key'' \<longrightarrow>
      fst (grpc_UpdateUser uid name email db) = Inl (AlreadyExists, ''email already exists'')) \<and>
   (fst (UpdateUser (uint_of_int i) name email db) = Inl e \<and> Contains (Error e) ''duplicate key'' \<longrightarrow>
      fst (api_UpdateUser (Some i) name email db) = (StatusConflict, H_error ''Email already exists'')) \<and>
   (fst (GetUser uid db) = Inl e \<longrightarrow>
      fst (grpc_GetUser uid db) = Inl (NotFound, ''user not found'')) \<and>
   (fst (GetUser (uint_of_int i) db) = Inl e \<longrightarrow>
      fst (api_GetUser (Some i) db) = (StatusNotFound, H_error ''User not found'')) \<and>
   (bind_LoginRequest (is_email lib) email password \<and>
    (fst (GetUserByEmail email db) = Inl e \<or>
     (\<exists>user. fst (GetUserByEmail email db) = Inr user \<and> ValidatePassword lib user password = Some e)) \<longrightarrow>
      fst (Login lib email password db) = (StatusUnauthorized, H_error ''Invalid credentials'')) \<and>
   (fst (DeleteUser uid db) = Some e \<longrightarrow>
      fst (grpc_DeleteUser uid db) = Inl (Internal, ''failed to delete user'')) \<and>
   (fst (DeleteUser (uint_of_int i) db) = Some e \<longrightarrow>
      fst (api_DeleteUser (Some i) db) = (StatusInternalServerError, H_error ''Failed to delete user'')) \<and>
   (fst (ListUsers db) = Inl e \<longrightarrow>
      fst (grpc_ListUsers db) = Inl (Internal, ''failed to list users'') \<and>
      fst (api_GetUsers db) = (StatusInternalServerError, H_error ''Failed to fetch users''))"
proof (intro conjI impI)
  assume "name \<noteq> [] \<and> email \<noteq> [] \<and> password \<noteq> [] \<and>
    fst (CreateUser lib name email password db) = Inl e"
  then show "fst (grpc_CreateUser lib name email password db) =
        Inl (if Contains (Error e) ''duplicate key'' then (AlreadyExists, ''email already exists'')
             else (Internal, ''failed to create user''))"
    by (cases "CreateUser lib name email password db") (simp add: grpc_CreateUser_def)
next
  assume "bind_SignupRequest (is_email lib) name email password \<and>
    fst (CreateUser lib name email password db) = Inl e"
  then show "fst (Signup lib name email password db) =
        (if Contains (Error e) ''duplicate key''
         then (StatusConflict, H_error ''Email already exists'')
         else (StatusInternalServerError, H_error ''Failed to create user''))"
    by (cases "CreateUser lib name email password db") (simp add: Signup_def)
next
  assume "fst (UpdateUser uid name email db) = Inl e \<and> Contains (Error e) ''duplicate key''"
  then show "fst (grpc_UpdateUser uid name email db) = Inl (AlreadyExists, ''email already exists'')"
    by (cases "UpdateUser uid name email db") (simp add: grpc_UpdateUser_def)
next
  assume "fst (UpdateUser (uint_of_int i) name email db) = Inl e \<and> Contains (Error e) ''duplicate key''"
  then show "fst (api_UpdateUser (Some i) name email db) = (StatusConflict, H_error ''Email already exists'')"
    by (cases "UpdateUser (uint_of_int i) name email db") (simp add: api_UpdateUser_def)
next
  assume "fst (GetUser uid db) = Inl e"
  then show "fst (grpc_GetUser uid db) = Inl (NotFound, ''user not found'')"
    by (cases "GetUser uid db") (simp add: grpc_GetUser_def)
next
  assume "fst (GetUser (uint_of_int i) db) = Inl e"
  then show "fst (api_GetUser (Some i) db) = (StatusNotFound, H_error ''User not found'')"
    by (cases "GetUser (uint_of_int i) db") (simp add: api_GetUser_def)
next
  assume "bind_LoginRequest (is_email lib) email password \<and>
    (fst (GetUserByEmail email db) = Inl e \<or>
     (\<exists>user. fst (GetUserByEmail email db) = Inr user \<and> ValidatePassword lib user password = Some e))"
  then show "fst (Login lib email password db) = (StatusUnauthorized, H_error ''Invalid credentials'')"
    by (cases "GetUserByEmail email db") (auto simp: Login_def)
next
  assume "fst (DeleteUser uid db) = Some e"
  then show "fst (grpc_DeleteUser uid db) = Inl (Internal, ''failed to delete user'')"
    by (cases "DeleteUser uid db") (simp add: grpc_DeleteUser_def)
next
  assume "fst (DeleteUser (uint_of_int i) db) = Some e"
  then show "fst (api_DeleteUser (Some i) db) = (StatusInternalServerError, H_error ''Failed to delete user'')"
    by (cases "DeleteUser (uint_of_int i) db") (simp add: api_DeleteUser_def)
next
  assume "fst (ListUsers db) = Inl e"
  then show "fst (grpc_ListUsers db) = Inl (Internal, ''failed to list users'')"
    by (cases "ListUsers db") (simp add: grpc_ListUsers_def)
next
  assume "fst (ListUsers db) = Inl e"
  then show "fst (api_GetUsers db) = (StatusInternalServerError, H_error ''Failed to fetch users'')"
    by (cases "ListUsers db") (simp add: api_GetUsers_def)
qed

text \<open>
  Claim C6 as written sends every error other than the three domain errors to the
  internal failure. With the store unreachable for three calls, the lookup of an existing
  user fails with the wrapped driver error, which is not a not-found error, and both
  get-by-identifier handlers answer not-found.
\<close>

theorem GetUser_reports_store_failure_as_not_found:
  "fst (GetUser 1 unreachable_db) =
     Inl (RetryError ''find_user_by_id'' 3 (Some (DriverError ''connection refused''))) \<and>
   \<not> Is_ErrRecordNotFound (RetryError ''find_user_by_id'' 3 (Some (DriverError ''connection refused''))) \<and>
   find (\<lambda>r. ID r = 1) (users unreachable_db) = Some ann \<and>
   fst (grpc_GetUser 1 unreachable_db) = Inl (NotFound, ''user not found'') \<and>
   fst (api_GetUser (Some 1) unreachable_db) = (404, H_error ''User not found'')"
proof -
  have u: "uint_of_int 1 = 1" by (simp add: uint_of_int_def)
  have f: "find (\<lambda>r. ID r = 1) (users unreachable_db) = Some ann"
    by (simp add: unreachable_db_def ann_db_def ann_def)
  have g: "fst (grpc_GetUser 1 unreachable_db) = Inl (NotFound, ''user not found'')"
    unfolding grpc_GetUser_def GetUser_unreachable by simp
  have h: "fst (api_GetUser (Some 1) unreachable_db) = (404, H_error ''User not found'')"
    unfolding api_GetUser_def option.case u GetUser_unreachable by (simp add: StatusNotFound_def)
  show ?thesis
    unfolding GetUser_unreachable using f g h by simp
qed

theorem adapter_error_codes_witness:
  "fst (grpc_CreateUser example_lib ''Ann2'' ''ann@x.com'' ''secret2'' ann_db)
     = Inl (AlreadyExists, ''email already exists'') \<and>
   fst (Signup example_lib ''Ann2'' ''ann@x.com'' ''secret2'' ann_db)
     = (409, H_error ''Email already exists'') \<and>
   fst (grpc_UpdateUser 2 [] ''ann@x.com'' ann_bob_db) = Inl (AlreadyExists, ''email already exists'') \<and>
   fst (api_UpdateUser (Some 2) [] ''ann@x.com'' ann_bob_db) = (409, H_error ''Email already exists'') \<and>
   fst (grpc_GetUser 42 example_db) = Inl (NotFound, ''user not found'') \<and>
   fst (api_GetUser (Some 42) example_db) = (404, H_error ''User not found'') \<and>
   fst (Login example_lib ''ann@x.com'' ''wrong-password'' ann_db) = (401, H_error ''Invalid credentials'') \<and>
   fst (Login example_lib ''bob@x.com'' ''secret2'' ann_db) = (401, H_error ''Invalid credentials'') \<and>
   fst (grpc_DeleteUser 1 unreachable_db) = Inl (Internal, ''failed to delete user'') \<and>
   fst (api_DeleteUser (Some 1) unreachable_db) = (500, H_error ''Failed to delete user'') \<and>
   fst (grpc_ListUsers unreachable_db) = Inl (Internal, ''failed to list users'') \<and>
   fst (api_GetUsers unreachable_db) = (500, H_error ''Failed to fetch users'')"
proof -
  let ?dup = "RetryError ''create_user'' 3 (Some (DriverError duplicate_key_msg))"
  let ?dup' = "RetryError ''update_user'' 3 (Some (DriverError duplicate_key_msg))"
  let ?nf = "RetryError ''find_user_by_id'' 3 (Some ErrRecordNotFound)"
  let ?nfe = "RetryError ''find_user_by_email'' 3 (Some ErrRecordNotFound)"
  let ?del = "RetryError ''delete_user'' 3 (Some (DriverError ''connection refused''))"
  let ?lst = "RetryError ''get_all_users'' 3 (Some (DriverError ''connection refused''))"
  have u: "uint_of_int 1 = 1" "uint_of_int 2 = 2" "uint_of_int 42 = 42"
    by (simp_all add: uint_of_int_def)
  have b: "bind_SignupRequest (is_email example_lib) ''Ann2'' ''ann@x.com'' ''secret2''"
    by (simp add: bind_SignupRequest_def example_lib_def RuneCountInString_examples)
  have c: "fst (CreateUser example_lib ''Ann2'' ''ann@x.com'' ''secret2'' ann_db) = Inl ?dup"
    using CreateUser_duplicate_reachable[of ann_db "''ann@x.com''" example_lib "''secret2''"
        "''$2a$secret2''" "''Ann2''"]
    by (simp add: ann_db_def ann_def example_lib_def)
  have d: "Contains (Error ?dup) ''duplicate key''" "Contains (Error ?dup') ''duplicate key''"
    by (rule Contains_duplicate_key)+
  note T1 = adapter_error_codes[where lib = example_lib and name = "''Ann2''"
      and email = "''ann@x.com''" and password = "''secret2''" and db = ann_db and e = ?dup]
  have p1: "fst (grpc_CreateUser example_lib ''Ann2'' ''ann@x.com'' ''secret2'' ann_db)
     = Inl (AlreadyExists, ''email already exists'')"
    using T1[THEN conjunct1] c d(1) by simp
  have p2: "fst (Signup example_lib ''Ann2'' ''ann@x.com'' ''secret2'' ann_db)
     = (409, H_error ''Email already exists'')"
    using T1[THEN conjunct2, THEN conjunct1] b c d(1) by (simp add: StatusConflict_def)
  have up: "fst (UpdateUser 2 [] ''ann@x.com'' ann_bob_db) = Inl ?dup'"
    by (simp add: UpdateUser_bob_duplicate)
  note T2 = adapter_error_codes[where uid = 2 and i = 2 and name = "[]"
      and email = "''ann@x.com''" and db = ann_bob_db and e = ?dup']
  have p3: "fst (grpc_UpdateUser 2 [] ''ann@x.com'' ann_bob_db) = Inl (AlreadyExists, ''email already exists'')"
    using T2[THEN conjunct2, THEN conjunct2, THEN conjunct1] up d(2) by blast
  have p4: "fst (api_UpdateUser (Some 2) [] ''ann@x.com'' ann_bob_db) = (409, H_error ''Email already exists'')"
    using T2[THEN conjunct2, THEN conjunct2, THEN conjunct2, THEN conjunct1] up d(2)
    unfolding u by (simp add: StatusConflict_def)
  have g: "fst (GetUser 42 example_db) = Inl ?nf"
    using GetUser_missing[of example_db 42] by (simp add: example_db_def)
  note T3 = adapter_error_codes[where uid = 42 and i = 42 and db = example_db and e = ?nf]
  have p5: "fst (grpc_GetUser 42 example_db) = Inl (NotFound, ''user not found'')"
    using T3[THEN conjunct2, THEN conjunct2, THEN conjunct2, THEN conjunct2, THEN conjunct1] g
    by blast
  have p6: "fst (api_GetUser (Some 42) example_db) = (404, H_error ''User not found'')"
    using T3[THEN conjunct2, THEN conjunct2, THEN conjunct2, THEN conjunct2, THEN conjunct2,
        THEN conjunct1] g
    unfolding u by (simp add: StatusNotFound_def)
  have bl: "bind_LoginRequest (is_email example_lib) ''ann@x.com'' ''wrong-password''"
    "bind_LoginRequest (is_email example_lib) ''bob@x.com'' ''secret2''"
    by (simp_all add: bind_LoginRequest_def example_lib_def)
  have ge: "fst (GetUserByEmail ''ann@x.com'' ann_db) = Inr ann"
    using FindUserByEmailWithRetry_found[of ann_db "''ann@x.com''" ann]
    by (simp add: GetUserByEmail_def ann_db_def ann_def)
  have vp: "ValidatePassword example_lib ann ''wrong-password'' = Some ErrMismatchedHashAndPassword"
    by (simp add: ValidatePassword_def example_lib_def ann_def)
  have p7: "fst (Login example_lib ''ann@x.com'' ''wrong-password'' ann_db) = (401, H_error ''Invalid credentials'')"
    using adapter_error_codes[where lib = example_lib and email = "''ann@x.com''"
        and password = "''wrong-password''" and db = ann_db and e = ErrMismatchedHashAndPassword,
        THEN conjunct2, THEN conjunct2, THEN conjunct2, THEN conjunct2, THEN conjunct2,
        THEN conjunct2, THEN conjunct1] bl(1) ge vp
    by (simp add: StatusUnauthorized_def)
  have gm: "fst (GetUserByEmail ''bob@x.com'' ann_db) = Inl ?nfe"
    by (simp add: GetUserByEmail_def FindUserByEmailWithRetry_def ExecuteWithRetry_default
        find_user_fn_missing ann_db_def ann_def)
  have p8: "fst (Login example_lib ''bob@x.com'' ''secret2'' ann_db) = (401, H_error ''Invalid credentials'')"
    using adapter_error_codes[where lib = example_lib and email = "''bob@x.com''"
        and password = "''secret2''" and db = ann_db and e = ?nfe,
        THEN conjunct2, THEN conjunct2, THEN conjunct2, THEN conjunct2, THEN conjunct2,
        THEN conjunct2, THEN conjunct1] bl(2) gm
    by (simp add: StatusUnauthorized_def)
  have dl: "fst (DeleteUser 1 unreachable_db) = Some ?del" unfolding DeleteUser_unreachable by simp
  note T4 = adapter_error_codes[where uid = 1 and i = 1 and db = unreachable_db and e = ?del]
  have p9: "fst (grpc_DeleteUser 1 unreachable_db) = Inl (Internal, ''failed to delete user'')"
    using T4[THEN conjunct2, THEN conjunct2, THEN conjunct2, THEN conjunct2, THEN conjunct2,
        THEN conjunct2, THEN conjunct2, THEN conjunct1] dl
    by blast
  have p10: "fst (api_DeleteUser (Some 1) unreachable_db) = (500, H_error ''Failed to delete user'')"
    using T4[THEN conjunct2, THEN conjunct2, THEN conjunct2, THEN conjunct2, THEN conjunct2,
        THEN conjunct2, THEN conjunct2, THEN conjunct2, THEN conjunct1] dl
    unfolding u by (simp add: StatusInternalServerError_def)
  have ls: "fst (ListUsers unreachable_db) = Inl ?lst" by (simp add: ListUsers_unreachable)
  have p11: "fst (grpc_ListUsers unreachable_db) = Inl (Internal, ''failed to list users'') \<and>
   fst (api_GetUsers unreachable_db) = (500, H_error ''Failed to fetch users'')"
    using adapter_error_codes[where db = unreachable_db and e = ?lst,
        THEN conjunct2, THEN conjunct2, THEN conjunct2, THEN conjunct2, THEN conjunct2,
        THEN conjunct2, THEN conjunct2, THEN conjunct2, THEN conjunct2] ls
    by (simp add: StatusInternalServerError_def)
  show ?thesis
    using p1 p2 p3 p4 p5 p6 p7 p8 p9 p10 p11 by blast
qed

text \<open>
  Claim C7: credential validation with a wrong password yields the InvalidCredential
  outcome, and the response of the login operation (status code and error body) is the
  same as when the account does not exist at all.

  \<open>ValidatePassword\<close> returns the hashing library's error, and \<open>Login\<close> answers 401 with the
  body \<open>Invalid credentials\<close> both when the stored digest does not match and when no row
  has the email, whatever the environment does to the lookup.
\<close>

theorem Login_failures_indistinguishable:
  assumes "bind_LoginRequest (is_email lib) email password"
    and "find (\<lambda>r. Email r = email) (users db1) = None"
    and "find (\<lambda>r. Email r = email) (users db2) = Some user"
    and "CompareHashAndPassword lib (Password user) password = Some err"
  shows "ValidatePassword lib user password = Some err \<and>
         fst (Login lib email password db2) = (StatusUnauthorized, H_error ''Invalid credentials'') \<and>
         fst (Login lib email password db1) = fst (Login lib email password db2)"
  using Login_no_account[OF assms(1,2)] Login_wrong_password[OF assms(1,3,4)] assms(4)
  by (simp add: ValidatePassword_def)

theorem Login_failures_indistinguishable_witness:
  "bind_LoginRequest (is_email example_lib) ''ann@x.com'' ''wrong-password'' \<and>
   find (\<lambda>r. Email r = ''ann@x.com'') (users example_db) = None \<and>
   find (\<lambda>r. Email r = ''ann@x.com'') (users ann_db) = Some ann \<and>
   CompareHashAndPassword example_lib (Password ann) ''wrong-password''
     = Some ErrMismatchedHashAndPassword \<and>
   fst (Login example_lib ''ann@x.com'' ''wrong-password'' ann_db) = (401, H_error ''Invalid credentials'') \<and>
   fst (Login example_lib ''ann@x.com'' ''wrong-password'' example_db)
     = (401, H_error ''Invalid credentials'')"
proof -
  have b: "bind_LoginRequest (is_email example_lib) ''ann@x.com'' ''wrong-password''"
    by (simp add: bind_LoginRequest_def example_lib_def)
  have n: "find (\<lambda>r. Email r = ''ann@x.com'') (users example_db) = None"
    by (simp add: example_db_def)
  have s: "find (\<lambda>r. Email r = ''ann@x.com'') (users ann_db) = Some ann"
    by (simp add: ann_db_def ann_def)
  have c: "CompareHashAndPassword example_lib (Password ann) ''wrong-password''
     = Some ErrMismatchedHashAndPassword"
    by (simp add: example_lib_def ann_def)
  show ?thesis
    using b n s c Login_failures_indistinguishable [OF b n s c]
    by (simp add: StatusUnauthorized_def)
qed

text \<open>
  Claim C8, as amended: for a request that each adapter's own validation accepts, the two
  adapters produce the same domain outcome and the same store. For update, get and delete
  (with an identifier both can carry) and for listing this is every request; for creation
  it is a request with a non-empty name, an email of valid format and a password of at
  least six characters, given that the signing of the token succeeds.
\<close>

theorem adapters_agree:
  "(uid < 2 ^ 32 \<longrightarrow>
      http_outcome (fst (api_UpdateUser (Some (int uid)) name email db))
        = grpc_outcome (fst (grpc_UpdateUser uid name email db)) \<and>
      snd (api_UpdateUser (Some (int uid)) name email db) = snd (grpc_UpdateUser uid name email db) \<and>
      http_outcome (fst (api_GetUser (Some (int uid)) db)) = grpc_outcome (fst (grpc_GetUser uid db)) \<and>
      snd (api_GetUser (Some (int uid)) db) = snd (grpc_GetUser uid db) \<and>
      http_outcome (fst (api_DeleteUser (Some (int uid)) db)) = grpc_outcome (fst (grpc_DeleteUser uid db)) \<and>
      snd (api_DeleteUser (Some (int uid)) db) = snd (grpc_DeleteUser uid db)) \<and>
   http_outcome (fst (api_GetUsers db)) = grpc_outcome (fst (grpc_ListUsers db)) \<and>
   snd (api_GetUsers db) = snd (grpc_ListUsers db) \<and>
   (bind_SignupRequest (is_email lib) name email password \<and>
    (\<forall>i. \<exists>token. SignedString lib i = Inr token) \<longrightarrow>
      http_outcome (fst (Signup lib name email password db))
        = grpc_outcome (fst (grpc_CreateUser lib name email password db)) \<and>
      snd (Signup lib name email password db) = snd (grpc_CreateUser lib name email password db))"
proof (intro conjI impI)
  assume "uid < 2 ^ 32"
  then have u: "uint_of_int (int uid) = uid" by (rule uint_of_int_nat)
  show "http_outcome (fst (api_UpdateUser (Some (int uid)) name email db))
        = grpc_outcome (fst (grpc_UpdateUser uid name email db))"
    and "snd (api_UpdateUser (Some (int uid)) name email db) = snd (grpc_UpdateUser uid name email db)"
    using UpdateUser_adapters[of "int uid" name email db] unfolding u by simp_all
  show "http_outcome (fst (api_GetUser (Some (int uid)) db)) = grpc_outcome (fst (grpc_GetUser uid db))"
    and "snd (api_GetUser (Some (int uid)) db) = snd (grpc_GetUser uid db)"
    using GetUser_adapters[of "int uid" db] unfolding u by simp_all
  show "http_outcome (fst (api_DeleteUser (Some (int uid)) db)) = grpc_outcome (fst (grpc_DeleteUser uid db))"
    and "snd (api_DeleteUser (Some (int uid)) db) = snd (grpc_DeleteUser uid db)"
    using DeleteUser_adapters[of "int uid" db] unfolding u by simp_all
next
  show "http_outcome (fst (api_GetUsers db)) = grpc_outcome (fst (grpc_ListUsers db))"
    and "snd (api_GetUsers db) = snd (grpc_ListUsers db)"
    using ListUsers_adapters[of db] by simp_all
next
  assume a: "bind_SignupRequest (is_email lib) name email password \<and>
    (\<forall>i. \<exists>token. SignedString lib i = Inr token)"
  then show "http_outcome (fst (Signup lib name email password db))
        = grpc_outcome (fst (grpc_CreateUser lib name email password db))"
    using CreateUser_adapters[of lib name email password db] by simp
  from a show "snd (Signup lib name email password db) = snd (grpc_CreateUser lib name email password db)"
    using CreateUser_adapters[of lib name email password db] by simp
qed

text \<open>
  Claim C8 as written covers every business input. The signup handler rejects a password
  of three characters (binding tag \<open>min=6\<close>) and leaves the store as it is; the RPC method
  only requires it to be non-empty, and creates the user.
\<close>

theorem Signup_rejects_what_rpc_creates:
  "http_outcome (fst (Signup example_lib ''Bob'' ''bob@x.com'' ''abc'' example_db)) = Rejected \<and>
   snd (Signup example_lib ''Bob'' ''bob@x.com'' ''abc'' example_db) = example_db \<and>
   users example_db = [] \<and>
   grpc_outcome (fst (grpc_CreateUser example_lib ''Bob'' ''bob@x.com'' ''abc'' example_db)) =
     Succeeded [\<lparr>proto_Id = 1, proto_Name = ''Bob'', proto_Email = ''bob@x.com'',
                 proto_CreatedAt = 1700000000, proto_UpdatedAt = 1700000000\<rparr>] \<and>
   map Name (users (snd (grpc_CreateUser example_lib ''Bob'' ''bob@x.com'' ''abc'' example_db))) = [''Bob'']"
proof -
  have s: "Signup example_lib ''Bob'' ''bob@x.com'' ''abc'' example_db
             = ((StatusBadRequest, H_binding_error), example_db)"
    by (simp add: Signup_def bind_SignupRequest_def RuneCountInString_examples)
  have g: "grpc_CreateUser example_lib ''Bob'' ''bob@x.com'' ''abc'' example_db =
     (Inr (UserResponse \<lparr>proto_Id = 1, proto_Name = ''Bob'', proto_Email = ''bob@x.com'',
                 proto_CreatedAt = 1700000000, proto_UpdatedAt = 1700000000\<rparr> ''User created successfully''),
      \<lparr>users = [\<lparr>ID = 1, Name = ''Bob'', Email = ''bob@x.com'', Password = ''$2a$abc'',
                  CreatedAt = 1700000000, UpdatedAt = 1700000000\<rparr>],
        next_id = 2, clock = 1700000000, faults = [], calls = 1\<rparr>)"
    by (simp add: grpc_CreateUser_def CreateUser_bob_short userToProtoUser_def)
  show ?thesis
    unfolding s g by (simp add: http_outcome_def status_defs example_db_def)
qed

theorem adapters_agree_witness:
  "(1::nat) < 2 ^ 32 \<and>
   grpc_outcome (fst (grpc_UpdateUser 1 [] ''new@x.com'' ann_db))
     = Succeeded [userToProtoUser (ann\<lparr>Email := ''new@x.com''\<rparr>)] \<and>
   http_outcome (fst (api_UpdateUser (Some 1) [] ''new@x.com'' ann_db))
     = Succeeded [userToProtoUser (ann\<lparr>Email := ''new@x.com''\<rparr>)] \<and>
   snd (api_UpdateUser (Some 1) [] ''new@x.com'' ann_db) = snd (grpc_UpdateUser 1 [] ''new@x.com'' ann_db) \<and>
   bind_SignupRequest (is_email example_lib) ''Ann2'' ''ann@x.com'' ''secret2'' \<and>
   (\<forall>i. \<exists>token. SignedString example_lib i = Inr token) \<and>
   grpc_outcome (fst (grpc_CreateUser example_lib ''Ann2'' ''ann@x.com'' ''secret2'' ann_db)) = Conflict \<and>
   http_outcome (fst (Signup example_lib ''Ann2'' ''ann@x.com'' ''secret2'' ann_db)) = Conflict \<and>
   snd (Signup example_lib ''Ann2'' ''ann@x.com'' ''secret2'' ann_db)
     = snd (grpc_CreateUser example_lib ''Ann2'' ''ann@x.com'' ''secret2'' ann_db)"
proof -
  have n: "(1::nat) < 2 ^ 32" by simp
  have i: "int 1 = 1" by simp
  have g: "grpc_outcome (fst (grpc_UpdateUser 1 [] ''new@x.com'' ann_db))
     = Succeeded [userToProtoUser (ann\<lparr>Email := ''new@x.com''\<rparr>)]"
    unfolding grpc_UpdateUser_def UpdateUser_ann by simp
  have b: "bind_SignupRequest (is_email example_lib) ''Ann2'' ''ann@x.com'' ''secret2''"
    by (simp add: bind_SignupRequest_def example_lib_def RuneCountInString_examples)
  have t: "\<forall>i. \<exists>token. SignedString example_lib i = Inr token"
    by (simp add: example_lib_def)
  have c: "CreateUser example_lib ''Ann2'' ''ann@x.com'' ''secret2'' ann_db =
             (Inl (RetryError ''create_user'' 3 (Some (DriverError duplicate_key_msg))),
              ann_db\<lparr>calls := calls ann_db + 3, next_id := next_id ann_db + 3\<rparr>)"
    using CreateUser_duplicate_reachable[of ann_db "''ann@x.com''" example_lib "''secret2''"
        "''$2a$secret2''" "''Ann2''"]
    by (simp add: ann_db_def ann_def example_lib_def)
  have k: "grpc_outcome (fst (grpc_CreateUser example_lib ''Ann2'' ''ann@x.com'' ''secret2'' ann_db)) = Conflict"
    unfolding grpc_CreateUser_def c using Contains_duplicate_key[of "''create_user''"] by simp
  note T = adapters_agree [of 1 "[]" "''new@x.com''" ann_db]
  note T' = adapters_agree [of 1 "''Ann2''" "''ann@x.com''" ann_db example_lib "''secret2''"]
  show ?thesis
    using n g b t k T[unfolded i] T'[unfolded i] by simp
qed

text \<open>
  Claim C9: the RPC \<open>CreateUser\<close> rejects a request whose name, email or password is the
  empty string with an invalid-argument error, before any hashing or persistence call
  (the store, with its count of physical calls, is returned as it was, and the result does
  not depend on the libraries); the REST signup rejects such a request through its
  binding, which also requires the email format and a password of at least six
  characters.
\<close>

theorem CreateUser_rejects_empty_fields:
  "(name = [] \<or> email = [] \<or> password = [] \<longrightarrow>
      grpc_CreateUser lib name email password db =
        (Inl (InvalidArgument, ''name, email, and password are required''), db) \<and>
      Signup lib name email password db = ((StatusBadRequest, H_binding_error), db)) \<and>
   (length password < 6 \<or> \<not> is_email lib email \<longrightarrow>
      Signup lib name email password db = ((StatusBadRequest, H_binding_error), db))"
proof (intro conjI impI)
  assume empty: "name = [] \<or> email = [] \<or> password = []"
  then show "grpc_CreateUser lib name email password db =
        (Inl (InvalidArgument, ''name, email, and password are required''), db)"
    by (simp add: grpc_CreateUser_def)
  from empty have "\<not> bind_SignupRequest (is_email lib) name email password"
    by (auto simp: bind_SignupRequest_def)
  then show "Signup lib name email password db = ((StatusBadRequest, H_binding_error), db)"
    by (simp add: Signup_def)
next
  assume "length password < 6 \<or> \<not> is_email lib email"
  then have "\<not> bind_SignupRequest (is_email lib) name email password"
    using RuneCountInString_le[of password] by (auto simp: bind_SignupRequest_def)
  then show "Signup lib name email password db = ((StatusBadRequest, H_binding_error), db)"
    by (simp add: Signup_def)
qed

theorem CreateUser_rejects_empty_fields_witness:
  "grpc_CreateUser example_lib ''Ann'' ''ann@x.com'' [] example_db =
     (Inl (InvalidArgument, ''name, email, and password are required''), example_db) \<and>
   Signup example_lib ''Ann'' ''ann@x.com'' [] example_db = ((400, H_binding_error), example_db) \<and>
   length ''abc'' < 6 \<and>
   Signup example_lib ''Ann'' ''ann@x.com'' ''abc'' example_db = ((400, H_binding_error), example_db)"
  using CreateUser_rejects_empty_fields [of "''Ann''" "''ann@x.com''" "[]" example_lib example_db]
    CreateUser_rejects_empty_fields [of "''Ann''" "''ann@x.com''" "''abc''" example_lib example_db]
  by (simp add: StatusBadRequest_def)

end
